theory Spec2Isabelle
  imports Complex_Main "HOL-Library.Sublist"
begin

section \<open>Data model shared by the HTTP layer and the kana notation\<close>

text \<open>
  Python strings are sequences of Unicode code points; offsets into them count code
  points. A code point is a natural number, a string a list of them.
\<close>

type_synonym uchar = nat
type_synonym ustring = "uchar list"
type_synonym phoneme = string

definition ascii :: "string \<Rightarrow> ustring" where
  "ascii s = map of_char s"

text \<open>
  Modelled from the spec: the classes \<open>Mora\<close> and \<open>AccentPhrase\<close> of
  \<open>voicevox_engine.model\<close>, which \<open>run.py\<close> imports and which are not among the
  source files. The fields are those of section 3 of the specification (the field
  \<open>text\<close> is \<open>mora_text\<close> here); the numeric
  fields are optional and absent at parse time.
\<close>

record Mora =
  mora_text :: ustring
  consonant :: "phoneme option"
  consonant_length :: "real option"
  vowel :: phoneme
  vowel_length :: "real option"
  pitch :: "real option"

record AccentPhrase =
  moras :: "Mora list"
  accent :: nat
  pause_mora :: "Mora option"
  is_interrogative :: bool

text \<open>
  Modelled from the spec: the failure value of the parser (\<open>ParseKanaError\<close> of
  \<open>voicevox_engine.model\<close>), with the six error kinds of sections 6 and 7, a message
  and a 0-based character offset.
\<close>

datatype error_name =
    UnknownCharacter
  | MissingAccentMark
  | MultipleAccentMarks
  | EmptyPhrase
  | DevoicingOnInvalidMora
  | InterrogativeMarkMisplaced

record parse_error =
  message :: ustring
  error_name :: error_name
  position :: nat

text \<open>
  Modelled from the spec: \<open>AudioQuery\<close> and \<open>Preset\<close>, with the fields that
  \<open>run.py\<close> reads and writes (lines 125-135 and 164-174). Python floats are reals here;
  no handler computes with them.
\<close>

record AudioQuery =
  aq_accent_phrases :: "AccentPhrase list"
  aq_speedScale :: real
  aq_pitchScale :: real
  aq_intonationScale :: real
  aq_volumeScale :: real
  aq_prePhonemeLength :: real
  aq_postPhonemeLength :: real
  aq_outputSamplingRate :: int
  aq_outputStereo :: bool
  aq_kana :: ustring

record Preset =
  preset_id :: int
  preset_style_id :: int
  preset_speedScale :: real
  preset_pitchScale :: real
  preset_intonationScale :: real
  preset_volumeScale :: real
  preset_prePhonemeLength :: real
  preset_postPhonemeLength :: real

section \<open>The HTTP layer of run.py\<close>

subsection \<open>Exceptions, responses and the external collaborators\<close>

text \<open>
  The \<open>detail\<close> of an \<open>HTTPException\<close> is a string or, for a parse failure, the
  dictionary \<open>ParseKanaBadRequest(err).dict()\<close>, which is built from the error alone.
\<close>

datatype detail =
    DetailStr ustring
  | DetailParseKanaBadRequest parse_error

datatype exn =
    HTTPException nat detail
  | ParseKanaError parse_error
  | ConnectBase64WavesException ustring
  | StopIteration
  | KeyError
  | IndexError
  | FileNotFoundError
  | OtherException ustring

text \<open>The literals of the handlers, as code points.\<close>

definition msg_unknown_version :: ustring where
  "msg_unknown_version =
     [19981, 26126, 12394, 12496, 12540, 12472, 12519, 12531, 12391, 12377]"

definition msg_preset_not_found :: ustring where
  "msg_preset_not_found =
     [35442, 24403, 12377, 12427, 12503, 12522, 12475, 12483, 12488, 73, 68, 12364,
      35211, 12388, 12363, 12426, 12414, 12379, 12435]"

definition msg_experimental_disabled :: ustring where
  "msg_experimental_disabled =
     [23455, 39443, 30340, 27231, 33021, 12399, 12487, 12501, 12457, 12523, 12488,
      12391, 28961, 21177, 12395, 12394, 12387, 12390, 12356, 12414, 12377, 12290,
      20351, 29992, 12377, 12427, 12395, 12399, 24341, 25968, 12434, 25351, 23450,
      12375, 12390, 12367, 12384, 12373, 12356, 12290]"

definition msg_sampling_rate_differs :: ustring where
  "msg_sampling_rate_differs =
     [12469, 12531, 12503, 12522, 12531, 12464, 12524, 12540, 12488, 12364, 30064,
      12394, 12427, 12463, 12456, 12522, 12364, 12354, 12426, 12414, 12377]"

definition msg_speaker_not_found :: ustring where
  "msg_speaker_not_found =
     [35442, 24403, 12377, 12427, 35441, 32773, 12364, 35211, 12388, 12363, 12426,
      12414, 12379, 12435]"

definition msg_info_not_found :: ustring where
  "msg_info_not_found =
     [36861, 21152, 24773, 22577, 12364, 35211, 12388, 12363, 12426, 12414, 12379,
      12435, 12391, 12375, 12383]"

definition msg_unsupported :: ustring where
  "msg_unsupported = [38750, 23550, 24540, 12398, 27231, 33021, 12391, 12377, 12290]"

text \<open>
  Temporary files are created by \<open>NamedTemporaryFile(delete=False)\<close> and stay on disk.
  The file system is the list of the files written so far; the name of a new file is
  its index. \<open>'x\<close> is the type of the opaque values of the external libraries (wave
  arrays, morphing parameters, uploaded files, requests). A zip archive lists its
  members by number: member \<open>n\<close> is the file named \<open>str(n).zfill(3) + ".wav"\<close>.
\<close>

datatype 'x stored_file =
    WavFile 'x int
  | ZipFile "(nat \<times> 'x stored_file) list"

datatype path = TempFile nat | NamedFile ustring

datatype 'x response =
    FileResponse path string
  | Response ustring string
  | ReturnedHTTPException nat detail

text \<open>
  What \<open>speaker_info\<close> reads: the entries of the engine's speaker list (the uuid and
  the style ids) and the files under \<open>speaker_info/\<close>, named by what they hold.
\<close>

record speaker_entry =
  speaker_uuid :: ustring
  styles :: "int list"

datatype info_path =
    PolicyPath ustring
  | PortraitPath ustring
  | IconPath ustring int
  | VoiceSamplePath ustring int nat

record style_info =
  style_id :: int
  icon :: ustring
  voice_samples :: "ustring list"

record speaker_info_data =
  policy :: ustring
  portrait :: ustring
  style_infos :: "style_info list"

text \<open>
  The functions that \<open>run.py\<close> imports and the methods of the engine objects are
  parameters: each may raise, so each returns a sum. \<open>'e\<close> is the type of engine
  objects.
\<close>

record ('e, 'x) api =
  engine_default_sampling_rate :: "'e \<Rightarrow> int"
  engine_speakers :: "'e \<Rightarrow> ustring"
  engine_supported_devices :: "'e \<Rightarrow> ustring option"
  engine_create_accent_phrases :: "'e \<Rightarrow> ustring \<Rightarrow> int \<Rightarrow> exn + AccentPhrase list"
  engine_replace_mora_data :: "'e \<Rightarrow> AccentPhrase list \<Rightarrow> int \<Rightarrow> exn + AccentPhrase list"
  engine_replace_phoneme_length :: "'e \<Rightarrow> AccentPhrase list \<Rightarrow> int \<Rightarrow> exn + AccentPhrase list"
  engine_replace_mora_pitch :: "'e \<Rightarrow> AccentPhrase list \<Rightarrow> int \<Rightarrow> exn + AccentPhrase list"
  engine_synthesis :: "'e \<Rightarrow> AudioQuery \<Rightarrow> int \<Rightarrow> bool option \<Rightarrow> exn + 'x"
  engine_guided_accent_phrases ::
    "'e \<Rightarrow> AccentPhrase list \<Rightarrow> int \<Rightarrow> 'x \<Rightarrow> bool \<Rightarrow> exn + AccentPhrase list"
  engine_guided_synthesis :: "'e \<Rightarrow> 'x \<Rightarrow> AudioQuery \<Rightarrow> int \<Rightarrow> bool \<Rightarrow> exn + 'x"
  ext_parse_kana :: "ustring \<Rightarrow> exn + AccentPhrase list"
  ext_create_kana :: "AccentPhrase list \<Rightarrow> exn + ustring"
  ext_load_presets :: "exn + Preset list \<times> ustring"
  ext_synthesis_morphing_parameter :: "'e \<Rightarrow> AudioQuery \<Rightarrow> int \<Rightarrow> int \<Rightarrow> exn + 'x"
  ext_synthesis_morphing :: "'x \<Rightarrow> real \<Rightarrow> bool \<Rightarrow> exn + 'x"
  ext_morph_param_fs :: "'x \<Rightarrow> int"
  ext_connect_base64_waves :: "ustring list \<Rightarrow> exn + 'x \<times> int"
  ext_cancellable_synthesis_impl ::
    "AudioQuery \<Rightarrow> int \<Rightarrow> 'x \<Rightarrow> ustring option \<Rightarrow> exn + ustring"
  ext_json_loads_speakers :: "ustring \<Rightarrow> exn + speaker_entry list"
  ext_read_info :: "info_path \<Rightarrow> exn + ustring"
  ext_b64encode :: "ustring \<Rightarrow> ustring"
  py_str :: "exn \<Rightarrow> ustring"

text \<open>
  What the closures of \<open>generate_app\<close> capture: the engine dictionary, the latest core
  version, the default sampling rate (line 71) and the command line flags \<open>args\<close>.
\<close>

record 'e app =
  synthesis_engines :: "ustring \<rightharpoonup> 'e"
  latest_core_version :: ustring
  default_sampling_rate :: int
  enable_guided_synthesis :: bool
  enable_cancellable_synthesis :: bool

text \<open>
  The state that requests change: the temporary files, and the cache that line 94 puts
  around \<open>_synthesis_morphing_parameter\<close>, least recently used entry first.
\<close>

record ('e, 'x) server =
  files :: "'x stored_file list"
  morph_cache :: "(('e \<times> AudioQuery \<times> int \<times> int) \<times> 'x) list"

subsection \<open>Engine dispatch and the query endpoints\<close>

definition get_engine :: "(ustring \<rightharpoonup> 'e) \<Rightarrow> ustring \<Rightarrow> ustring option \<Rightarrow> exn + 'e" where
  "get_engine engines latest core_version =
     (case core_version of
        None \<Rightarrow> (case engines latest of None \<Rightarrow> Inl KeyError | Some e \<Rightarrow> Inr e)
      | Some v \<Rightarrow>
          (case engines v of
             Some e \<Rightarrow> Inr e
           | None \<Rightarrow> Inl (HTTPException 422 (DetailStr msg_unknown_version))))"

abbreviation unknown_version :: exn where
  "unknown_version \<equiv> HTTPException 422 (DetailStr msg_unknown_version)"

abbreviation experimental_disabled :: exn where
  "experimental_disabled \<equiv> HTTPException 404 (DetailStr msg_experimental_disabled)"

definition app_engine :: "'e app \<Rightarrow> ustring option \<Rightarrow> exn + 'e" where
  "app_engine app core_version =
     get_engine (synthesis_engines app) (latest_core_version app) core_version"

text \<open>
  \<open>generate_app\<close> reads \<open>synthesis_engines[latest_core_version]\<close> at line 71, before
  any handler exists: no application is built when the latest version is not a key.
\<close>

definition generate_app ::
  "('e, 'x) api \<Rightarrow> bool \<Rightarrow> bool \<Rightarrow> (ustring \<rightharpoonup> 'e) \<Rightarrow> ustring \<Rightarrow> exn + 'e app \<times> ('e, 'x) server" where
  "generate_app api guided cancellable engines latest =
     (case engines latest of
        None \<Rightarrow> Inl KeyError
      | Some e \<Rightarrow>
          Inr (\<lparr>synthesis_engines = engines, latest_core_version = latest,
                default_sampling_rate = engine_default_sampling_rate api e,
                enable_guided_synthesis = guided,
                enable_cancellable_synthesis = cancellable\<rparr>,
               \<lparr>files = [], morph_cache = []\<rparr>))"

definition audio_query ::
  "('e, 'x) api \<Rightarrow> 'e app \<Rightarrow> ustring \<Rightarrow> int \<Rightarrow> ustring option \<Rightarrow> exn + AudioQuery" where
  "audio_query api app text speaker core_version =
     (case app_engine app core_version of
        Inl e \<Rightarrow> Inl e
      | Inr engine \<Rightarrow>
          (case engine_create_accent_phrases api engine text speaker of
             Inl e \<Rightarrow> Inl e
           | Inr aps \<Rightarrow>
               (case ext_create_kana api aps of
                  Inl e \<Rightarrow> Inl e
                | Inr k \<Rightarrow>
                    Inr \<lparr>aq_accent_phrases = aps, aq_speedScale = 1, aq_pitchScale = 0,
                         aq_intonationScale = 1, aq_volumeScale = 1,
                         aq_prePhonemeLength = 1 / 10, aq_postPhonemeLength = 1 / 10,
                         aq_outputSamplingRate = default_sampling_rate app,
                         aq_outputStereo = False, aq_kana = k\<rparr>)))"

definition audio_query_from_preset ::
  "('e, 'x) api \<Rightarrow> 'e app \<Rightarrow> ustring \<Rightarrow> int \<Rightarrow> ustring option \<Rightarrow> exn + AudioQuery" where
  "audio_query_from_preset api app text pid core_version =
     (case app_engine app core_version of
        Inl e \<Rightarrow> Inl e
      | Inr engine \<Rightarrow>
          (case ext_load_presets api of
             Inl e \<Rightarrow> Inl e
           | Inr (presets, err_detail) \<Rightarrow>
               if err_detail \<noteq> [] then Inl (HTTPException 422 (DetailStr err_detail))
               else
                 (case find (\<lambda>preset. preset_id preset = pid) presets of
                    None \<Rightarrow> Inl (HTTPException 422 (DetailStr msg_preset_not_found))
                  | Some selected_preset \<Rightarrow>
                      (case engine_create_accent_phrases api engine text
                              (preset_style_id selected_preset) of
                         Inl e \<Rightarrow> Inl e
                       | Inr aps \<Rightarrow>
                           (case ext_create_kana api aps of
                              Inl e \<Rightarrow> Inl e
                            | Inr k \<Rightarrow>
                                Inr \<lparr>aq_accent_phrases = aps,
                                     aq_speedScale = preset_speedScale selected_preset,
                                     aq_pitchScale = preset_pitchScale selected_preset,
                                     aq_intonationScale = preset_intonationScale selected_preset,
                                     aq_volumeScale = preset_volumeScale selected_preset,
                                     aq_prePhonemeLength = preset_prePhonemeLength selected_preset,
                                     aq_postPhonemeLength = preset_postPhonemeLength selected_preset,
                                     aq_outputSamplingRate = default_sampling_rate app,
                                     aq_outputStereo = False, aq_kana = k\<rparr>)))))"

text \<open>
  \<open>except ParseKanaError\<close> catches that exception only; any other one leaves the
  handler as it is.
\<close>

definition parse_kana_or_400 :: "('e, 'x) api \<Rightarrow> ustring \<Rightarrow> exn + AccentPhrase list" where
  "parse_kana_or_400 api text =
     (case ext_parse_kana api text of
        Inl (ParseKanaError err) \<Rightarrow> Inl (HTTPException 400 (DetailParseKanaBadRequest err))
      | Inl e \<Rightarrow> Inl e
      | Inr aps \<Rightarrow> Inr aps)"

definition accent_phrases ::
  "('e, 'x) api \<Rightarrow> 'e app \<Rightarrow> ustring \<Rightarrow> int \<Rightarrow> bool \<Rightarrow> ustring option \<Rightarrow> exn + AccentPhrase list" where
  "accent_phrases api app text speaker is_kana core_version =
     (case app_engine app core_version of
        Inl e \<Rightarrow> Inl e
      | Inr engine \<Rightarrow>
          if is_kana then
            (case parse_kana_or_400 api text of
               Inl e \<Rightarrow> Inl e
             | Inr aps \<Rightarrow> engine_replace_mora_data api engine aps speaker)
          else engine_create_accent_phrases api engine text speaker)"

definition mora_data ::
  "('e, 'x) api \<Rightarrow> 'e app \<Rightarrow> AccentPhrase list \<Rightarrow> int \<Rightarrow> ustring option \<Rightarrow> exn + AccentPhrase list" where
  "mora_data api app aps speaker core_version =
     (case app_engine app core_version of
        Inl e \<Rightarrow> Inl e
      | Inr engine \<Rightarrow> engine_replace_mora_data api engine aps speaker)"

definition mora_length ::
  "('e, 'x) api \<Rightarrow> 'e app \<Rightarrow> AccentPhrase list \<Rightarrow> int \<Rightarrow> ustring option \<Rightarrow> exn + AccentPhrase list" where
  "mora_length api app aps speaker core_version =
     (case app_engine app core_version of
        Inl e \<Rightarrow> Inl e
      | Inr engine \<Rightarrow> engine_replace_phoneme_length api engine aps speaker)"

definition mora_pitch ::
  "('e, 'x) api \<Rightarrow> 'e app \<Rightarrow> AccentPhrase list \<Rightarrow> int \<Rightarrow> ustring option \<Rightarrow> exn + AccentPhrase list" where
  "mora_pitch api app aps speaker core_version =
     (case app_engine app core_version of
        Inl e \<Rightarrow> Inl e
      | Inr engine \<Rightarrow> engine_replace_mora_pitch api engine aps speaker)"

subsection \<open>The synthesis endpoints\<close>

text \<open>
  \<open>with NamedTemporaryFile(delete=False) as f: soundfile.write(file=f, ...)\<close> adds one
  file; \<open>f.name\<close> is its index.
\<close>

definition write_wav :: "'x \<Rightarrow> int \<Rightarrow> ('e, 'x) server \<Rightarrow> path \<times> ('e, 'x) server" where
  "write_wav data samplerate st =
     (TempFile (length (files st)), st\<lparr>files := files st @ [WavFile data samplerate]\<rparr>)"

definition synthesis ::
  "('e, 'x) api \<Rightarrow> 'e app \<Rightarrow> AudioQuery \<Rightarrow> int \<Rightarrow> bool \<Rightarrow> ustring option \<Rightarrow> ('e, 'x) server
     \<Rightarrow> (exn + 'x response) \<times> ('e, 'x) server" where
  "synthesis api app query speaker enable_interrogative_upspeak core_version st =
     (case app_engine app core_version of
        Inl e \<Rightarrow> (Inl e, st)
      | Inr engine \<Rightarrow>
          (case engine_synthesis api engine query speaker (Some enable_interrogative_upspeak) of
             Inl e \<Rightarrow> (Inl e, st)
           | Inr wave \<Rightarrow>
               (case write_wav wave (aq_outputSamplingRate query) st of
                  (name, st') \<Rightarrow> (Inr (FileResponse name ''audio/wav''), st'))))"

definition cancellable_synthesis ::
  "('e, 'x) api \<Rightarrow> 'e app \<Rightarrow> AudioQuery \<Rightarrow> int \<Rightarrow> 'x \<Rightarrow> ustring option \<Rightarrow> exn + 'x response" where
  "cancellable_synthesis api app query speaker request core_version =
     (if \<not> enable_cancellable_synthesis app then
        Inl (HTTPException 404 (DetailStr msg_experimental_disabled))
      else
        (case ext_cancellable_synthesis_impl api query speaker request core_version of
           Inl e \<Rightarrow> Inl e
         | Inr f_name \<Rightarrow>
             if f_name = [] then Inl (HTTPException 422 (DetailStr msg_unknown_version))
             else Inr (FileResponse (NamedFile f_name) ''audio/wav'')))"

text \<open>
  The loop of \<open>multi_synthesis\<close> over \<open>range(len(queries))\<close>: \<open>i\<close> is the index of the
  head of the remaining queries, \<open>members\<close> the archive written so far. An exception
  leaves the loop with the members written before it.
\<close>

fun multi_synthesis_loop ::
  "('e, 'x) api \<Rightarrow> 'e \<Rightarrow> int \<Rightarrow> int \<Rightarrow> nat \<Rightarrow> AudioQuery list \<Rightarrow> (nat \<times> 'x stored_file) list
     \<Rightarrow> exn option \<times> (nat \<times> 'x stored_file) list" where
  "multi_synthesis_loop api engine speaker sampling_rate i [] members = (None, members)"
| "multi_synthesis_loop api engine speaker sampling_rate i (q # qs) members =
     (if aq_outputSamplingRate q \<noteq> sampling_rate then
        (Some (HTTPException 422 (DetailStr msg_sampling_rate_differs)), members)
      else
        (case engine_synthesis api engine q speaker None of
           Inl e \<Rightarrow> (Some e, members)
         | Inr wave \<Rightarrow>
             multi_synthesis_loop api engine speaker sampling_rate (i + 1) qs
               (members @ [(i + 1, WavFile wave sampling_rate)])))"

definition multi_synthesis ::
  "('e, 'x) api \<Rightarrow> 'e app \<Rightarrow> AudioQuery list \<Rightarrow> int \<Rightarrow> ustring option \<Rightarrow> ('e, 'x) server
     \<Rightarrow> (exn + 'x response) \<times> ('e, 'x) server" where
  "multi_synthesis api app queries speaker core_version st =
     (case app_engine app core_version of
        Inl e \<Rightarrow> (Inl e, st)
      | Inr engine \<Rightarrow>
          (case queries of
             [] \<Rightarrow> (Inl IndexError, st)
           | q0 # _ \<Rightarrow>
               (case multi_synthesis_loop api engine speaker (aq_outputSamplingRate q0) 0
                       queries [] of
                  (Some e, members) \<Rightarrow> (Inl e, st\<lparr>files := files st @ [ZipFile members]\<rparr>)
                | (None, members) \<Rightarrow>
                    (Inr (FileResponse (TempFile (length (files st))) ''application/zip''),
                     st\<lparr>files := files st @ [ZipFile members]\<rparr>))))"

subsection \<open>The morphing endpoint and its cache\<close>

text \<open>
  \<open>functools.lru_cache(maxsize)\<close> of the Python library, for a positive \<open>maxsize\<close>: a hit
  returns the stored result and makes its entry the most recently used; a miss calls the
  function, stores nothing when it raises, and otherwise appends the result, dropping
  the least recently used entry when the cache is full. The list holds the least
  recently used entry first.
\<close>

definition lru_cache ::
  "nat \<Rightarrow> ('k \<Rightarrow> exn + 'v) \<Rightarrow> ('k \<times> 'v) list \<Rightarrow> 'k \<Rightarrow> (exn + 'v) \<times> ('k \<times> 'v) list" where
  "lru_cache maxsize f cache key =
     (case map_of cache key of
        Some v \<Rightarrow> (Inr v, filter (\<lambda>kv. fst kv \<noteq> key) cache @ [(key, v)])
      | None \<Rightarrow>
          (case f key of
             Inl e \<Rightarrow> (Inl e, cache)
           | Inr v \<Rightarrow>
               (Inr v, (if maxsize \<le> length cache then tl cache else cache) @ [(key, v)])))"

definition synthesis_morphing_parameter ::
  "('e, 'x) api \<Rightarrow> (('e \<times> AudioQuery \<times> int \<times> int) \<times> 'x) list \<Rightarrow> 'e \<Rightarrow> AudioQuery \<Rightarrow> int \<Rightarrow> int
     \<Rightarrow> (exn + 'x) \<times> (('e \<times> AudioQuery \<times> int \<times> int) \<times> 'x) list" where
  "synthesis_morphing_parameter api cache engine query base_speaker target_speaker =
     lru_cache 4 (\<lambda>(e, q, b, t). ext_synthesis_morphing_parameter api e q b t) cache
       (engine, query, base_speaker, target_speaker)"

definition synthesis_morphing_endpoint ::
  "('e, 'x) api \<Rightarrow> 'e app \<Rightarrow> AudioQuery \<Rightarrow> int \<Rightarrow> int \<Rightarrow> real \<Rightarrow> ustring option \<Rightarrow> ('e, 'x) server
     \<Rightarrow> (exn + 'x response) \<times> ('e, 'x) server" where
  "synthesis_morphing_endpoint api app query base_speaker target_speaker morph_rate
       core_version st =
     (case app_engine app core_version of
        Inl e \<Rightarrow> (Inl e, st)
      | Inr engine \<Rightarrow>
          (case synthesis_morphing_parameter api (morph_cache st) engine query base_speaker
                  target_speaker of
             (Inl e, cache) \<Rightarrow> (Inl e, st\<lparr>morph_cache := cache\<rparr>)
           | (Inr morph_param, cache) \<Rightarrow>
               (case ext_synthesis_morphing api morph_param morph_rate (aq_outputStereo query) of
                  Inl e \<Rightarrow> (Inl e, st\<lparr>morph_cache := cache\<rparr>)
                | Inr morph_wave \<Rightarrow>
                    (case write_wav morph_wave (ext_morph_param_fs api morph_param)
                            (st\<lparr>morph_cache := cache\<rparr>) of
                       (name, st') \<Rightarrow> (Inr (FileResponse name ''audio/wav''), st')))))"

subsection \<open>The guided endpoints\<close>

text \<open>
  The \<open>except\<close> clauses of the guided endpoints, in their order: \<open>ParseKanaError\<close>
  with the status the endpoint gives it, \<open>StopIteration\<close>, and every other exception
  (all of them derive from \<open>Exception\<close>). \<open>dot\<close> is the full stop that the details of
  \<open>guided_synthesis\<close> end with.
\<close>

definition guided_except :: "('e, 'x) api \<Rightarrow> nat \<Rightarrow> ustring \<Rightarrow> exn \<Rightarrow> exn" where
  "guided_except api parse_status dot e =
     (case e of
        ParseKanaError err \<Rightarrow> HTTPException parse_status (DetailParseKanaBadRequest err)
      | StopIteration \<Rightarrow> HTTPException 500 (DetailStr (ascii ''Failed in Forced Alignment'' @ dot))
      | _ \<Rightarrow>
          if py_str api e = ascii ''Decode Failed''
          then HTTPException 500 (DetailStr (ascii ''Failed in Forced Alignment'' @ dot))
          else HTTPException 500 (DetailStr (ascii ''Internal Server Error'' @ dot)))"

definition guided_accent_phrase ::
  "('e, 'x) api \<Rightarrow> 'e app \<Rightarrow> ustring \<Rightarrow> int \<Rightarrow> bool \<Rightarrow> 'x \<Rightarrow> bool \<Rightarrow> ustring option
     \<Rightarrow> exn + AccentPhrase list" where
  "guided_accent_phrase api app text speaker is_kana audio_file normalize_flag core_version =
     (if \<not> enable_guided_synthesis app then
        Inl (HTTPException 404 (DetailStr msg_experimental_disabled))
      else
        (case app_engine app core_version of
           Inl e \<Rightarrow> Inl e
         | Inr engine \<Rightarrow>
             (case (if is_kana then parse_kana_or_400 api text
                    else engine_create_accent_phrases api engine text speaker) of
                Inl e \<Rightarrow> Inl e
              | Inr aps \<Rightarrow>
                  (case engine_guided_accent_phrases api engine aps speaker audio_file normalize_flag of
                     Inl e \<Rightarrow> Inl (guided_except api 422 [] e)
                   | Inr r \<Rightarrow> Inr r))))"

definition guided_synthesis ::
  "('e, 'x) api \<Rightarrow> 'e app \<Rightarrow> ustring \<Rightarrow> int \<Rightarrow> bool \<Rightarrow> 'x \<Rightarrow> bool \<Rightarrow> int \<Rightarrow> real \<Rightarrow> real \<Rightarrow> real
     \<Rightarrow> ustring option \<Rightarrow> ('e, 'x) server \<Rightarrow> (exn + 'x response) \<times> ('e, 'x) server" where
  "guided_synthesis api app kana speaker_id normalize_flag audio_file stereo sample_rate
       volume_scale pitch_scale speed_scale core_version st =
     (if \<not> enable_guided_synthesis app then
        (Inl (HTTPException 404 (DetailStr msg_experimental_disabled)), st)
      else
        (case app_engine app core_version of
           Inl e \<Rightarrow> (Inl e, st)
         | Inr engine \<Rightarrow>
             (case ext_parse_kana api kana of
                Inl e \<Rightarrow> (Inl (guided_except api 400 (ascii ''.'') e), st)
              | Inr aps \<Rightarrow>
                  (case engine_guided_synthesis api engine audio_file
                          \<lparr>aq_accent_phrases = aps, aq_speedScale = speed_scale,
                           aq_pitchScale = pitch_scale, aq_intonationScale = 1,
                           aq_volumeScale = volume_scale, aq_prePhonemeLength = 1 / 10,
                           aq_postPhonemeLength = 1 / 10, aq_outputSamplingRate = sample_rate,
                           aq_outputStereo = stereo, aq_kana = kana\<rparr>
                          speaker_id normalize_flag of
                     Inl e \<Rightarrow> (Inl (guided_except api 400 (ascii ''.'') e), st)
                   | Inr wave \<Rightarrow>
                       (case write_wav wave sample_rate st of
                          (name, st') \<Rightarrow> (Inr (FileResponse name ''audio/wav''), st'))))))"

subsection \<open>Joining waves, and the information endpoints\<close>

text \<open>
  \<open>connect_waves\<close> returns the exception object it builds for a
  \<open>ConnectBase64WavesException\<close> (line 610 has \<open>return\<close>, not \<open>raise\<close>).
\<close>

definition connect_waves ::
  "('e, 'x) api \<Rightarrow> ustring list \<Rightarrow> ('e, 'x) server \<Rightarrow> (exn + 'x response) \<times> ('e, 'x) server" where
  "connect_waves api waves st =
     (case ext_connect_base64_waves api waves of
        Inl (ConnectBase64WavesException err) \<Rightarrow>
          (Inr (ReturnedHTTPException 422 (DetailStr err)), st)
      | Inl e \<Rightarrow> (Inl e, st)
      | Inr (waves_nparray, sampling_rate) \<Rightarrow>
          (case write_wav waves_nparray sampling_rate st of
             (name, st') \<Rightarrow> (Inr (FileResponse name ''audio/wav''), st')))"

definition speakers :: "('e, 'x) api \<Rightarrow> 'e app \<Rightarrow> ustring option \<Rightarrow> exn + 'x response" where
  "speakers api app core_version =
     (case app_engine app core_version of
        Inl e \<Rightarrow> Inl e
      | Inr engine \<Rightarrow> Inr (Response (engine_speakers api engine) ''application/json''))"

definition supported_devices :: "('e, 'x) api \<Rightarrow> 'e app \<Rightarrow> ustring option \<Rightarrow> exn + 'x response" where
  "supported_devices api app core_version =
     (case app_engine app core_version of
        Inl e \<Rightarrow> Inl e
      | Inr engine \<Rightarrow>
          (case engine_supported_devices api engine of
             None \<Rightarrow> Inl (HTTPException 422 (DetailStr msg_unsupported))
           | Some devices \<Rightarrow> Inr (Response devices ''application/json'')))"

fun read_all :: "('e, 'x) api \<Rightarrow> info_path list \<Rightarrow> exn + ustring list" where
  "read_all api [] = Inr []"
| "read_all api (p # ps) =
     (case ext_read_info api p of
        Inl e \<Rightarrow> Inl e
      | Inr c \<Rightarrow>
          (case read_all api ps of
             Inl e \<Rightarrow> Inl e
           | Inr cs \<Rightarrow> Inr (ext_b64encode api c # cs)))"

fun read_style_infos :: "('e, 'x) api \<Rightarrow> ustring \<Rightarrow> int list \<Rightarrow> exn + style_info list" where
  "read_style_infos api uuid [] = Inr []"
| "read_style_infos api uuid (sid # sids) =
     (case ext_read_info api (IconPath uuid sid) of
        Inl e \<Rightarrow> Inl e
      | Inr ic \<Rightarrow>
          (case read_all api (map (\<lambda>j. VoiceSamplePath uuid sid (j + 1)) [0..<3]) of
             Inl e \<Rightarrow> Inl e
           | Inr samples \<Rightarrow>
               (case read_style_infos api uuid sids of
                  Inl e \<Rightarrow> Inl e
                | Inr infos \<Rightarrow>
                    Inr (\<lparr>style_id = sid, icon = ext_b64encode api ic,
                          voice_samples = samples\<rparr> # infos))))"

definition read_speaker_info ::
  "('e, 'x) api \<Rightarrow> ustring \<Rightarrow> speaker_entry \<Rightarrow> exn + speaker_info_data" where
  "read_speaker_info api uuid speaker =
     (case ext_read_info api (PolicyPath uuid) of
        Inl e \<Rightarrow> Inl e
      | Inr pol \<Rightarrow>
          (case ext_read_info api (PortraitPath uuid) of
             Inl e \<Rightarrow> Inl e
           | Inr por \<Rightarrow>
               (case read_style_infos api uuid (styles speaker) of
                  Inl e \<Rightarrow> Inl e
                | Inr infos \<Rightarrow>
                    Inr \<lparr>policy = pol, portrait = ext_b64encode api por,
                         style_infos = infos\<rparr>)))"

definition speaker_info ::
  "('e, 'x) api \<Rightarrow> 'e app \<Rightarrow> ustring \<Rightarrow> ustring option \<Rightarrow> exn + speaker_info_data" where
  "speaker_info api app uuid core_version =
     (case app_engine app core_version of
        Inl e \<Rightarrow> Inl e
      | Inr engine \<Rightarrow>
          (case ext_json_loads_speakers api (engine_speakers api engine) of
             Inl e \<Rightarrow> Inl e
           | Inr entries \<Rightarrow>
               (case find (\<lambda>s. speaker_uuid s = uuid) entries of
                  None \<Rightarrow> Inl (HTTPException 404 (DetailStr msg_speaker_not_found))
                | Some speaker \<Rightarrow>
                    (case read_speaker_info api uuid speaker of
                       Inl FileNotFoundError \<Rightarrow> Inl (HTTPException 500 (DetailStr msg_info_not_found))
                     | Inl e \<Rightarrow> Inl e
                     | Inr d \<Rightarrow> Inr d))))"

section \<open>The kana notation\<close>

text \<open>
  Modelled from the spec: the module \<open>voicevox_engine.kana_parser\<close> (\<open>parse_kana\<close> and
  \<open>create_kana\<close>), which \<open>run.py\<close> imports and which is not among the source files.
  The definitions follow sections 4.1 to 4.5 of the specification. What the
  specification leaves open is a parameter: the phoneme lookup table, the silence
  phoneme, the rendering of a devoiced and of a lengthened mora, the test for a vowel
  marked unvoiced, and the wording of the messages.
\<close>

record kana_env =
  table :: "(ustring \<times> phoneme option \<times> phoneme) list"
  silence :: phoneme
  unvoice :: "Mora \<Rightarrow> Mora"
  unvoiced_vowel :: "phoneme \<Rightarrow> bool"
  extend_vowel :: "Mora \<Rightarrow> Mora"
  message_of :: "error_name \<Rightarrow> ustring"

subsection \<open>Notation tokenizer (4.1)\<close>

datatype unit_kind =
    AccentMark
  | Devoice
  | PlainDelimiter
  | PauseDelimiter
  | Interrogative
  | LongVowelExtension
  | KanaMora ustring "phoneme option" phoneme

text \<open>
  Modelled from the spec: the classification rules of 4.1 (the tokenizer of
  \<open>kana_parser\<close> is not among the source files). The marker characters: the apostrophe (39), the underscore (95), the slash (47), the
  ideographic comma U+3001 (12289), the full-width question mark U+FF1F (65311) and the
  long-vowel mark U+30FC (12540), in the priority order of 4.1.
\<close>

definition classify :: "uchar \<Rightarrow> unit_kind option" where
  "classify c =
     (if c = 39 then Some AccentMark
      else if c = 95 then Some Devoice
      else if c = 47 then Some PlainDelimiter
      else if c = 12289 then Some PauseDelimiter
      else if c = 65311 then Some Interrogative
      else if c = 12540 then Some LongVowelExtension
      else None)"

text \<open>
  Modelled from the spec: the longest-match lookup of 4.1 and section 9 in the phoneme
  table, which is not among the source files. The result is the longest key of the table
  that is a non-empty prefix of the input; among equal keys the first entry wins.
\<close>

fun longest_match ::
  "(ustring \<times> phoneme option \<times> phoneme) list \<Rightarrow> ustring
     \<Rightarrow> (ustring \<times> phoneme option \<times> phoneme) option" where
  "longest_match [] cs = None"
| "longest_match ((k, ph) # tbl) cs =
     (case longest_match tbl cs of
        None \<Rightarrow> (if k \<noteq> [] \<and> prefix k cs then Some (k, ph) else None)
      | Some (k', ph') \<Rightarrow>
          (if k \<noteq> [] \<and> prefix k cs \<and> length k' \<le> length k then Some (k, ph)
           else Some (k', ph')))"

definition kana_error :: "kana_env \<Rightarrow> error_name \<Rightarrow> nat \<Rightarrow> parse_error" where
  "kana_error env name pos = \<lparr>message = message_of env name, error_name = name, position = pos\<rparr>"

text \<open>
  Modelled from the spec: the tokenizer of 4.1, which is not among the source files. It
  gives the units of the input with their offsets, up to the first character that is neither
  a marker nor the start of a table token, and the \<open>UnknownCharacter\<close> error for that
  character. A token \<open>k\<close> found at \<open>c # cs\<close> starts with \<open>c\<close>, so the scan goes on
  after \<open>length k - 1\<close> further characters.
\<close>

function tokenize :: "kana_env \<Rightarrow> nat \<Rightarrow> ustring \<Rightarrow> (unit_kind \<times> nat) list \<times> parse_error option" where
  "tokenize env pos [] = ([], None)"
| "tokenize env pos (c # cs) =
     (case classify c of
        Some u \<Rightarrow> (case tokenize env (pos + 1) cs of (us, e) \<Rightarrow> ((u, pos) # us, e))
      | None \<Rightarrow>
          (case longest_match (table env) (c # cs) of
             None \<Rightarrow> ([], Some (kana_error env UnknownCharacter pos))
           | Some (k, co, v) \<Rightarrow>
               (case tokenize env (pos + length k) (drop (length k - 1) cs) of
                  (us, e) \<Rightarrow> ((KanaMora k co v, pos) # us, e))))"
  by pat_completeness auto
termination
  by (relation "measure (\<lambda>(env, pos, cs). length cs)") auto

subsection \<open>Mora builder and accent-phrase assembler (4.2, 4.3)\<close>

text \<open>
  Modelled from the spec: the state of the mora builder (4.2) and the accent-phrase
  assembler (4.3), which are not among the source files.
  The builder and the assembler run as one pass over the units, so that the first
  error in input order is the one reported (4.3). The state holds the finished
  phrases, the morae of the phrase being read, its accent if the mark was seen, the
  pending devoicing flag, whether the interrogative mark was seen, and the offset at
  which the phrase starts.
\<close>

record pstate =
  done_phrases :: "AccentPhrase list"
  cur_moras :: "Mora list"
  cur_accent :: "nat option"
  pending_devoice :: bool
  seen_interrogative :: bool
  phrase_start :: nat

definition init_state :: pstate where
  "init_state = \<lparr>done_phrases = [], cur_moras = [], cur_accent = None,
                  pending_devoice = False, seen_interrogative = False, phrase_start = 0\<rparr>"

definition base_mora :: "ustring \<Rightarrow> phoneme option \<Rightarrow> phoneme \<Rightarrow> Mora" where
  "base_mora k co v = \<lparr>mora_text = k, consonant = co, consonant_length = None, vowel = v,
                        vowel_length = None, pitch = None\<rparr>"

definition silent_mora :: "kana_env \<Rightarrow> Mora" where
  "silent_mora env = \<lparr>mora_text = [], consonant = None, consonant_length = None,
                       vowel = silence env, vowel_length = None, pitch = None\<rparr>"

text \<open>
  Modelled from the spec: the closing of a phrase in 4.3, at a delimiter or at the end
  of the input, at offset \<open>off\<close>. The
  specification names no offset for \<open>EmptyPhrase\<close> and \<open>DevoicingOnInvalidMora\<close> other
  than the unit that triggered the failure (4.5): here the closing unit.
\<close>

definition close_phrase :: "kana_env \<Rightarrow> pstate \<Rightarrow> bool \<Rightarrow> nat \<Rightarrow> parse_error + pstate" where
  "close_phrase env st pause off =
     (if pending_devoice st then Inl (kana_error env DevoicingOnInvalidMora off)
      else if cur_moras st = [] then Inl (kana_error env EmptyPhrase off)
      else
        (case cur_accent st of
           None \<Rightarrow> Inl (kana_error env MissingAccentMark (phrase_start st))
         | Some a \<Rightarrow>
             Inr \<lparr>done_phrases = done_phrases st @
                     [\<lparr>moras = cur_moras st, accent = a,
                       pause_mora = (if pause then Some (silent_mora env) else None),
                       is_interrogative = seen_interrogative st\<rparr>],
                  cur_moras = [], cur_accent = None, pending_devoice = False,
                  seen_interrogative = False, phrase_start = off + 1\<rparr>))"

text \<open>
  Modelled from the spec: the transition of 4.2 and 4.3 for one unit. After the
  interrogative mark only a delimiter may follow; after a devoicing
  mark only a kana token. An accent mark or a long-vowel mark needs a mora before it
  in the phrase; the specification names no error kind for the lack of one, and
  \<open>EmptyPhrase\<close> is taken here.
\<close>

definition step :: "kana_env \<Rightarrow> pstate \<Rightarrow> unit_kind \<Rightarrow> nat \<Rightarrow> parse_error + pstate" where
  "step env st u off =
     (case u of
        PlainDelimiter \<Rightarrow> close_phrase env st False off
      | PauseDelimiter \<Rightarrow> close_phrase env st True off
      | _ \<Rightarrow>
          if seen_interrogative st then Inl (kana_error env InterrogativeMarkMisplaced off)
          else
            (case u of
               KanaMora k co v \<Rightarrow>
                 Inr (st\<lparr>cur_moras := cur_moras st @
                            [if pending_devoice st then unvoice env (base_mora k co v)
                             else base_mora k co v],
                         pending_devoice := False\<rparr>)
             | _ \<Rightarrow>
                 if pending_devoice st then Inl (kana_error env DevoicingOnInvalidMora off)
                 else
                   (case u of
                      Devoice \<Rightarrow> Inr (st\<lparr>pending_devoice := True\<rparr>)
                    | Interrogative \<Rightarrow> Inr (st\<lparr>seen_interrogative := True\<rparr>)
                    | LongVowelExtension \<Rightarrow>
                        if cur_moras st = [] then Inl (kana_error env EmptyPhrase off)
                        else Inr (st\<lparr>cur_moras := butlast (cur_moras st) @
                                        [extend_vowel env (last (cur_moras st))]\<rparr>)
                    | _ \<Rightarrow>
                        if cur_moras st = [] then Inl (kana_error env EmptyPhrase off)
                        else if cur_accent st \<noteq> None
                        then Inl (kana_error env MultipleAccentMarks off)
                        else Inr (st\<lparr>cur_accent := Some (length (cur_moras st))\<rparr>))))"

text \<open>
  Modelled from the spec: \<open>parse_kana\<close> of \<open>voicevox_engine.kana_parser\<close>, which is not
  among the source files, as the pipeline of section 2: all units, then the end of the
  input, where the tokenizer's error is reported if it stopped early and
  the last phrase is closed without a pause mora otherwise.
\<close>

fun run :: "kana_env \<Rightarrow> pstate \<Rightarrow> (unit_kind \<times> nat) list \<Rightarrow> parse_error option \<Rightarrow> nat
              \<Rightarrow> parse_error + AccentPhrase list" where
  "run env st [] err n =
     (case err of
        Some e \<Rightarrow> Inl e
      | None \<Rightarrow>
          (case close_phrase env st False n of
             Inl e \<Rightarrow> Inl e
           | Inr st' \<Rightarrow> Inr (done_phrases st')))"
| "run env st ((u, off) # us) err n =
     (case step env st u off of
        Inl e \<Rightarrow> Inl e
      | Inr st' \<Rightarrow> run env st' us err n)"

definition parse_kana :: "kana_env \<Rightarrow> ustring \<Rightarrow> parse_error + AccentPhrase list" where
  "parse_kana env s =
     (case tokenize env 0 s of (us, err) \<Rightarrow> run env init_state us err (length s))"

subsection \<open>Serializer (4.4)\<close>

text \<open>
  Modelled from the spec: \<open>create_kana\<close> of \<open>voicevox_engine.kana_parser\<close>, which is not
  among the source files, after 4.4. The morae of a phrase from index \<open>j\<close> on: the underscore before a mora whose vowel is
  marked unvoiced, the mora's text, the apostrophe after the mora at \<open>accent\<close>.
\<close>

fun moras_kana :: "kana_env \<Rightarrow> nat \<Rightarrow> nat \<Rightarrow> Mora list \<Rightarrow> ustring" where
  "moras_kana env a j [] = []"
| "moras_kana env a j (m # ms) =
     (if unvoiced_vowel env (vowel m) then [95] else []) @ mora_text m @
     (if j + 1 = a then [39] else []) @ moras_kana env a (j + 1) ms"

definition phrase_kana :: "kana_env \<Rightarrow> AccentPhrase \<Rightarrow> ustring" where
  "phrase_kana env ph =
     moras_kana env (accent ph) 0 (moras ph) @ (if is_interrogative ph then [65311] else [])"

definition delimiter_of :: "AccentPhrase \<Rightarrow> uchar" where
  "delimiter_of ph = (if pause_mora ph = None then 47 else 12289)"

fun create_kana :: "kana_env \<Rightarrow> AccentPhrase list \<Rightarrow> ustring" where
  "create_kana env [] = []"
| "create_kana env [ph] = phrase_kana env ph"
| "create_kana env (ph # phs) = phrase_kana env ph @ [delimiter_of ph] @ create_kana env phs"

subsection \<open>Equality in the grammar-relevant fields\<close>

definition same_mora :: "Mora \<Rightarrow> Mora \<Rightarrow> bool" where
  "same_mora m m' \<longleftrightarrow>
     mora_text m = mora_text m' \<and> consonant m = consonant m' \<and> vowel m = vowel m'"

definition same_phrase :: "AccentPhrase \<Rightarrow> AccentPhrase \<Rightarrow> bool" where
  "same_phrase ph ph' \<longleftrightarrow>
     list_all2 same_mora (moras ph) (moras ph') \<and> accent ph = accent ph' \<and>
     (pause_mora ph = None) = (pause_mora ph' = None) \<and>
     is_interrogative ph = is_interrogative ph'"

definition grammar_eq :: "AccentPhrase list \<Rightarrow> AccentPhrase list \<Rightarrow> bool" where
  "grammar_eq p p' \<longleftrightarrow> list_all2 same_phrase p p'"

section \<open>Reachable server states and a small concrete instance\<close>

text \<open>
  The states a server can be in: the one \<open>generate_app\<close> starts with, and every state
  that one of the state-changing endpoints leaves behind.
\<close>

inductive reachable :: "('e, 'x) api \<Rightarrow> 'e app \<Rightarrow> ('e, 'x) server \<Rightarrow> bool"
  for api :: "('e, 'x) api" and app :: "'e app" where
  start: "reachable api app \<lparr>files = [], morph_cache = []\<rparr>"
| after_synthesis:
    "reachable api app st \<Longrightarrow> reachable api app (snd (synthesis api app q sp up cv st))"
| after_multi_synthesis:
    "reachable api app st \<Longrightarrow> reachable api app (snd (multi_synthesis api app qs sp cv st))"
| after_synthesis_morphing:
    "reachable api app st \<Longrightarrow>
       reachable api app (snd (synthesis_morphing_endpoint api app q b t r cv st))"
| after_guided_synthesis:
    "reachable api app st \<Longrightarrow>
       reachable api app (snd (guided_synthesis api app k sp n f so sr vs ps ss cv st))"
| after_connect_waves:
    "reachable api app st \<Longrightarrow> reachable api app (snd (connect_waves api ws st))"

text \<open>
  An instance to evaluate the endpoints on: one engine (number 0) under the version
  \<open>"1"\<close> (the code point 49), collaborators that answer with fixed values, a parser that rejects the empty
  text, and a wave joiner that rejects the empty list.
\<close>

definition sample_error :: parse_error where
  "sample_error = \<lparr>message = ascii ''empty'', error_name = EmptyPhrase, position = 0\<rparr>"

definition sample_api :: "(nat, nat) api" where
  "sample_api =
     \<lparr>engine_default_sampling_rate = (\<lambda>e. 24000),
      engine_speakers = (\<lambda>e. ascii ''[]''),
      engine_supported_devices = (\<lambda>e. None),
      engine_create_accent_phrases = (\<lambda>e t sp. Inr []),
      engine_replace_mora_data = (\<lambda>e aps sp. Inr aps),
      engine_replace_phoneme_length = (\<lambda>e aps sp. Inr aps),
      engine_replace_mora_pitch = (\<lambda>e aps sp. Inr aps),
      engine_synthesis = (\<lambda>e q sp up. Inr 7),
      engine_guided_accent_phrases = (\<lambda>e aps sp f n. Inr aps),
      engine_guided_synthesis = (\<lambda>e f q sp n. Inr 7),
      ext_parse_kana = (\<lambda>t. if t = [] then Inl (ParseKanaError sample_error) else Inr []),
      ext_create_kana = (\<lambda>aps. Inr (ascii ''kana'')),
      ext_load_presets =
        Inr ([\<lparr>preset_id = 1, preset_style_id = 3, preset_speedScale = 1,
                preset_pitchScale = 0, preset_intonationScale = 1, preset_volumeScale = 1,
                preset_prePhonemeLength = 1 / 10, preset_postPhonemeLength = 1 / 10\<rparr>], []),
      ext_synthesis_morphing_parameter = (\<lambda>e q b t. Inr (nat (abs b) + nat (abs t))),
      ext_synthesis_morphing = (\<lambda>p r s. Inr p),
      ext_morph_param_fs = (\<lambda>p. 24000),
      ext_connect_base64_waves = (\<lambda>ws. if ws = [] then Inl (ConnectBase64WavesException (ascii ''no waves'')) else Inr (5, 24000)),
      ext_cancellable_synthesis_impl = (\<lambda>q sp r cv. Inr []),
      ext_json_loads_speakers = (\<lambda>t. Inr []),
      ext_read_info = (\<lambda>p. Inl FileNotFoundError),
      ext_b64encode = (\<lambda>t. t),
      py_str = (\<lambda>e. [])\<rparr>"

definition sample_app :: "nat app" where
  "sample_app =
     \<lparr>synthesis_engines = [[49] \<mapsto> 0], latest_core_version = [49],
      default_sampling_rate = 24000, enable_guided_synthesis = False,
      enable_cancellable_synthesis = False\<rparr>"

definition sample_query :: AudioQuery where
  "sample_query =
     \<lparr>aq_accent_phrases = [], aq_speedScale = 1, aq_pitchScale = 0, aq_intonationScale = 1,
      aq_volumeScale = 1, aq_prePhonemeLength = 1 / 10, aq_postPhonemeLength = 1 / 10,
      aq_outputSamplingRate = 24000, aq_outputStereo = False, aq_kana = []\<rparr>"

section \<open>Notions used to state and prove the properties of the kana notation\<close>

text \<open>
  For every delimiter among the units, in order, whether it is the pause delimiter.
\<close>

definition closing_pauses :: "(unit_kind \<times> nat) list \<Rightarrow> bool list" where
  "closing_pauses us =
     map (\<lambda>u. fst u = PauseDelimiter)
       (filter (\<lambda>u. fst u = PlainDelimiter \<or> fst u = PauseDelimiter) us)"

text \<open>The accent of every finished phrase and of the phrase being read is in range.\<close>

definition accent_in_range :: "AccentPhrase \<Rightarrow> bool" where
  "accent_in_range ph \<longleftrightarrow> 1 \<le> accent ph \<and> accent ph \<le> length (moras ph)"

definition accents_ok :: "pstate \<Rightarrow> bool" where
  "accents_ok st \<longleftrightarrow>
     (\<forall>ph \<in> set (done_phrases st). accent_in_range ph) \<and>
     (\<forall>a. cur_accent st = Some a \<longrightarrow> 1 \<le> a \<and> a \<le> length (cur_moras st))"

text \<open>
  A small table for concrete evaluation: the tokens KA (12459), KI (12461), KU (12463),
  KYA (12461 12515) and small YA (12515); a devoiced mora has its vowel prefixed with
  \<open>U\<close>, a lengthened mora has the long-vowel mark appended to its text.
\<close>

definition sample_env :: kana_env where
  "sample_env =
     \<lparr>table = [([12459], Some ''k'', ''a''), ([12461], Some ''k'', ''i''),
               ([12463], Some ''k'', ''u''), ([12461, 12515], Some ''ky'', ''a''),
               ([12515], Some ''y'', ''a'')],
      silence = ''pau'',
      unvoice = (\<lambda>m. m\<lparr>vowel := CHR ''U'' # vowel m\<rparr>),
      unvoiced_vowel = (\<lambda>v. case v of [] \<Rightarrow> False | c # _ \<Rightarrow> c = CHR ''U''),
      extend_vowel = (\<lambda>m. m\<lparr>mora_text := mora_text m @ [12540]\<rparr>),
      message_of = (\<lambda>n. [])\<rparr>"

definition sample_text :: ustring where
  "sample_text = [12459, 39, 12540, 12289, 95, 12461, 12515, 12461, 39, 65311]"

definition sample_phrases :: "AccentPhrase list" where
  "sample_phrases =
     [\<lparr>moras = [\<lparr>mora_text = [12459, 12540], consonant = Some ''k'', consonant_length = None,
                  vowel = ''a'', vowel_length = None, pitch = None\<rparr>],
       accent = 1,
       pause_mora = Some \<lparr>mora_text = [], consonant = None, consonant_length = None,
                          vowel = ''pau'', vowel_length = None, pitch = None\<rparr>,
       is_interrogative = False\<rparr>,
      \<lparr>moras = [\<lparr>mora_text = [12461, 12515], consonant = Some ''ky'', consonant_length = None,
                  vowel = ''Ua'', vowel_length = None, pitch = None\<rparr>,
                \<lparr>mora_text = [12461], consonant = Some ''k'', consonant_length = None,
                  vowel = ''i'', vowel_length = None, pitch = None\<rparr>],
       accent = 2, pause_mora = None, is_interrogative = True\<rparr>]"

text \<open>
  What the forward round trip needs of the parameters. A key of the table can only be
  found where a token may start, at a character that is no marker; such a key must
  hold no marker character (the long-vowel mark as a key of its own is harmless, a key
  that holds it behind a kana character is not), and its vowel must not be marked
  unvoiced. Devoicing must keep the text and mark the vowel; lengthening must append
  the long-vowel mark to the text and keep the marking of the vowel. The last two are
  only needed for a text that holds the devoicing mark or the long-vowel mark.
\<close>

definition token_start :: "ustring \<Rightarrow> bool" where
  "token_start k \<longleftrightarrow> (case k of [] \<Rightarrow> False | c # _ \<Rightarrow> classify c = None)"







text \<open>The kinds of the units of a text, without offsets; \<open>None\<close> for an unknown character.\<close>

function tokens :: "kana_env \<Rightarrow> ustring \<Rightarrow> unit_kind list option" where
  "tokens env [] = Some []"
| "tokens env (c # cs) =
     (case classify c of
        Some u \<Rightarrow> map_option ((#) u) (tokens env cs)
      | None \<Rightarrow>
          (case longest_match (table env) (c # cs) of
             None \<Rightarrow> None
           | Some (k, co, v) \<Rightarrow>
               map_option ((#) (KanaMora k co v)) (tokens env (drop (length k - 1) cs))))"
  by pat_completeness auto
termination
  by (relation "measure (\<lambda>(env, cs). length cs)") auto

text \<open>The units one after another, without the end of the input.\<close>

fun steps :: "kana_env \<Rightarrow> pstate \<Rightarrow> (unit_kind \<times> nat) list \<Rightarrow> parse_error + pstate" where
  "steps env st [] = Inr st"
| "steps env st ((u, off) # us) =
     (case step env st u off of
        Inl e \<Rightarrow> Inl e
      | Inr st' \<Rightarrow> steps env st' us)"

text \<open>
  The units with every accent mark moved behind the long-vowel marks that follow it
  directly: the order in which the serializer writes them.
\<close>

definition is_long :: "unit_kind \<times> nat \<Rightarrow> bool" where
  "is_long x \<longleftrightarrow> fst x = LongVowelExtension"

function canonical_units :: "(unit_kind \<times> nat) list \<Rightarrow> (unit_kind \<times> nat) list" where
  "canonical_units [] = []"
| "canonical_units (x # xs) =
     (if fst x = AccentMark
      then takeWhile is_long xs @ x # canonical_units (dropWhile is_long xs)
      else x # canonical_units xs)"
  by pat_completeness auto
termination
  by (relation "measure length") (auto simp: le_imp_less_Suc length_dropWhile_le)





definition same_upto_start :: "pstate \<Rightarrow> pstate \<Rightarrow> bool" where
  "same_upto_start st st' \<longleftrightarrow>
     done_phrases st = done_phrases st' \<and> cur_moras st = cur_moras st' \<and>
     cur_accent st = cur_accent st' \<and> pending_devoice st = pending_devoice st' \<and>
     seen_interrogative st = seen_interrogative st'"


text \<open>
  Lists to evaluate the serializer on: the sample phrases with durations and pitch
  filled in, as a later stage of the pipeline would; a single phrase that carries a
  pause mora although nothing follows it; and a phrase of the morae KI and small YA,
  whose texts together are the token KYA.
\<close>

definition with_numbers :: "Mora \<Rightarrow> Mora" where
  "with_numbers m = m\<lparr>consonant_length := Some (1 / 20), vowel_length := Some (1 / 10),
                      pitch := Some 5\<rparr>"

definition sample_phrases_timed :: "AccentPhrase list" where
  "sample_phrases_timed =
     map (\<lambda>ph. ph\<lparr>moras := map with_numbers (moras ph),
                  pause_mora := map_option with_numbers (pause_mora ph)\<rparr>) sample_phrases"

definition paused_phrase :: AccentPhrase where
  "paused_phrase =
     \<lparr>moras = [\<lparr>mora_text = [12459], consonant = Some ''k'', consonant_length = None,
                 vowel = ''a'', vowel_length = None, pitch = None\<rparr>],
      accent = 1,
      pause_mora = Some \<lparr>mora_text = [], consonant = None, consonant_length = None,
                         vowel = ''pau'', vowel_length = None, pitch = None\<rparr>,
      is_interrogative = False\<rparr>"

definition ki_ya_phrase :: AccentPhrase where
  "ki_ya_phrase =
     \<lparr>moras = [\<lparr>mora_text = [12461], consonant = Some ''k'', consonant_length = None,
                 vowel = ''i'', vowel_length = None, pitch = None\<rparr>,
               \<lparr>mora_text = [12515], consonant = Some ''y'', consonant_length = None,
                 vowel = ''a'', vowel_length = None, pitch = None\<rparr>],
      accent = 2, pause_mora = None, is_interrogative = False\<rparr>"

definition kya_phrase :: AccentPhrase where
  "kya_phrase =
     \<lparr>moras = [\<lparr>mora_text = [12461, 12515], consonant = Some ''ky'', consonant_length = None,
                 vowel = ''a'', vowel_length = None, pitch = None\<rparr>],
      accent = 1, pause_mora = None, is_interrogative = False\<rparr>"



definition long_token_env :: kana_env where
  "long_token_env =
     sample_env\<lparr>table := ([12459, 12540], Some ''k'', ''a:'') # table sample_env\<rparr>"

definition devoiced_text_env :: kana_env where
  "devoiced_text_env =
     sample_env\<lparr>unvoice := (\<lambda>m. m\<lparr>mora_text := mora_text m @ [12442],
                                      vowel := CHR ''U'' # vowel m\<rparr>)\<rparr>"


text \<open>
  Reading a list back from the text the serializer writes for it. A mora with the text
  that follows it reads back when its text starts with a character that is no marker,
  the longest table token at the start of the mora's text and what follows is a token
  \<open>k\<close>, the mora's text is \<open>k\<close> and then only long-vowel marks, and the mora agrees in text,
  consonant and vowel with the mora the builder makes from \<open>k\<close>: devoiced if the mora's
  vowel is marked unvoiced, lengthened once for every long-vowel mark.
\<close>

definition lengthen :: "kana_env \<Rightarrow> nat \<Rightarrow> Mora \<Rightarrow> Mora" where
  "lengthen env n m = (extend_vowel env ^^ n) m"

definition built_mora :: "kana_env \<Rightarrow> Mora \<Rightarrow> ustring \<times> phoneme option \<times> phoneme \<Rightarrow> Mora" where
  "built_mora env m e =
     (case e of (k, co, v) \<Rightarrow>
        lengthen env (length (mora_text m) - length k)
          (if unvoiced_vowel env (vowel m) then unvoice env (base_mora k co v)
           else base_mora k co v))"

definition mora_reads_back :: "kana_env \<Rightarrow> Mora \<Rightarrow> ustring \<Rightarrow> bool" where
  "mora_reads_back env m rest \<longleftrightarrow>
     token_start (mora_text m) \<and>
     (case longest_match (table env) (mora_text m @ rest) of
        None \<Rightarrow> False
      | Some e \<Rightarrow>
          mora_text m = fst e @ replicate (length (mora_text m) - length (fst e)) 12540 \<and>
          same_mora m (built_mora env m e))"

fun moras_read_back :: "kana_env \<Rightarrow> nat \<Rightarrow> nat \<Rightarrow> Mora list \<Rightarrow> ustring \<Rightarrow> bool" where
  "moras_read_back env a j [] tail = True"
| "moras_read_back env a j (m # ms) tail =
     (mora_reads_back env m
        ((if j + 1 = a then [39] else []) @ moras_kana env a (j + 1) ms @ tail) \<and>
      moras_read_back env a (j + 1) ms tail)"

text \<open>What the serializer writes behind the morae of a phrase.\<close>

definition phrase_tail :: "kana_env \<Rightarrow> AccentPhrase \<Rightarrow> AccentPhrase list \<Rightarrow> ustring" where
  "phrase_tail env ph phs =
     (if is_interrogative ph then [65311] else []) @
     (case phs of [] \<Rightarrow> [] | _ # _ \<Rightarrow> delimiter_of ph # create_kana env phs)"

fun reads_back :: "kana_env \<Rightarrow> AccentPhrase list \<Rightarrow> bool" where
  "reads_back env [] = True"
| "reads_back env (ph # phs) =
     (moras_read_back env (accent ph) 0 (moras ph) (phrase_tail env ph phs) \<and>
      reads_back env phs)"

text \<open>
  The units the tokenizer finds in the text written for a list that reads back, and
  the list the parser makes of them.
\<close>

definition at0 :: "unit_kind list \<Rightarrow> (unit_kind \<times> nat) list" where
  "at0 ks = map (\<lambda>u. (u, 0)) ks"

definition mora_units :: "kana_env \<Rightarrow> Mora \<Rightarrow> ustring \<Rightarrow> unit_kind list" where
  "mora_units env m rest =
     (case longest_match (table env) (mora_text m @ rest) of
        None \<Rightarrow> []
      | Some (k, co, v) \<Rightarrow>
          (if unvoiced_vowel env (vowel m) then [Devoice] else []) @
          KanaMora k co v # replicate (length (mora_text m) - length k) LongVowelExtension)"

definition rebuilt_mora :: "kana_env \<Rightarrow> Mora \<Rightarrow> ustring \<Rightarrow> Mora" where
  "rebuilt_mora env m rest =
     (case longest_match (table env) (mora_text m @ rest) of
        None \<Rightarrow> m
      | Some e \<Rightarrow> built_mora env m e)"

fun moras_units :: "kana_env \<Rightarrow> nat \<Rightarrow> nat \<Rightarrow> Mora list \<Rightarrow> ustring \<Rightarrow> unit_kind list" where
  "moras_units env a j [] tail = []"
| "moras_units env a j (m # ms) tail =
     mora_units env m ((if j + 1 = a then [39] else []) @ moras_kana env a (j + 1) ms @ tail) @
     (if j + 1 = a then [AccentMark] else []) @ moras_units env a (j + 1) ms tail"

fun rebuilt_moras :: "kana_env \<Rightarrow> nat \<Rightarrow> nat \<Rightarrow> Mora list \<Rightarrow> ustring \<Rightarrow> Mora list" where
  "rebuilt_moras env a j [] tail = []"
| "rebuilt_moras env a j (m # ms) tail =
     rebuilt_mora env m ((if j + 1 = a then [39] else []) @ moras_kana env a (j + 1) ms @ tail) #
     rebuilt_moras env a (j + 1) ms tail"

definition tail_units :: "AccentPhrase \<Rightarrow> unit_kind list" where
  "tail_units ph = (if is_interrogative ph then [Interrogative] else [])"

definition delimiter_unit :: "AccentPhrase \<Rightarrow> unit_kind" where
  "delimiter_unit ph = (if pause_mora ph = None then PlainDelimiter else PauseDelimiter)"

fun phrases_units :: "kana_env \<Rightarrow> AccentPhrase list \<Rightarrow> unit_kind list" where
  "phrases_units env [] = []"
| "phrases_units env (ph # phs) =
     moras_units env (accent ph) 0 (moras ph) (phrase_tail env ph phs) @ tail_units ph @
     (case phs of [] \<Rightarrow> [] | _ # _ \<Rightarrow> delimiter_unit ph # phrases_units env phs)"

fun rebuilt :: "kana_env \<Rightarrow> AccentPhrase list \<Rightarrow> AccentPhrase list" where
  "rebuilt env [] = []"
| "rebuilt env (ph # phs) =
     \<lparr>moras = rebuilt_moras env (accent ph) 0 (moras ph) (phrase_tail env ph phs),
      accent = accent ph,
      pause_mora = (case phs of [] \<Rightarrow> None
                    | _ # _ \<Rightarrow> if pause_mora ph = None then None else Some (silent_mora env)),
      is_interrogative = is_interrogative ph\<rparr> # rebuilt env phs"

section \<open>Properties of the HTTP layer\<close>

lemma app_engine_unknown:
  "synthesis_engines app v = None \<Longrightarrow>
   app_engine app (Some v) = Inl (HTTPException 422 (DetailStr msg_unknown_version))"
  by (simp add: app_engine_def get_engine_def)

lemma app_engine_known:
  "synthesis_engines app v = Some e \<Longrightarrow> app_engine app (Some v) = Inr e"
  by (simp add: app_engine_def get_engine_def)

lemma generate_app_latest:
  "generate_app api g c engines latest = Inr (app, st) \<Longrightarrow>
   \<exists>e. engines latest = Some e \<and> app_engine app None = Inr e \<and> synthesis_engines app = engines"
  by (auto simp: generate_app_def app_engine_def get_engine_def split: option.splits)

text \<open>
  Claim C9, as amended. In an application built by \<open>generate_app\<close>, \<open>get_engine\<close>
  returns the engine of the latest version for \<open>None\<close>, the engine stored under a known
  version, and raises the exception with status 422 for every other version. The
  endpoints \<open>audio_query\<close>, \<open>audio_query_from_preset\<close>, \<open>accent_phrases\<close>, \<open>mora_data\<close>,
  \<open>mora_length\<close>, \<open>mora_pitch\<close>, \<open>synthesis\<close>, \<open>multi_synthesis\<close>, \<open>synthesis_morphing\<close>,
  \<open>speakers\<close>, \<open>speaker_info\<close> and \<open>supported_devices\<close> answer an unknown version with
  that exception whatever their other arguments and collaborators are, and leave the
  server state as it was. The two guided endpoints test the flag
  \<open>enable_guided_synthesis\<close> first: with the flag off they answer 404, also for an unknown
  version, and only with the flag on 422. \<open>cancellable_synthesis\<close> does not call
  \<open>get_engine\<close>: with its flag off it answers 404 for every version.
\<close>

theorem core_version_dispatch:
  assumes "generate_app api g c engines latest = Inr (app, st0)"
  shows
    "(\<exists>e. engines latest = Some e \<and> app_engine app None = Inr e) \<and>
     (\<forall>v e. engines v = Some e \<longrightarrow> app_engine app (Some v) = Inr e) \<and>
     (\<forall>v. engines v = None \<longrightarrow>
        app_engine app (Some v) = Inl unknown_version \<and>
        audio_query api app text speaker (Some v) = Inl unknown_version \<and>
        audio_query_from_preset api app text pid (Some v) = Inl unknown_version \<and>
        accent_phrases api app text speaker is_kana (Some v) = Inl unknown_version \<and>
        mora_data api app aps speaker (Some v) = Inl unknown_version \<and>
        mora_length api app aps speaker (Some v) = Inl unknown_version \<and>
        mora_pitch api app aps speaker (Some v) = Inl unknown_version \<and>
        synthesis api app q speaker up (Some v) st = (Inl unknown_version, st) \<and>
        multi_synthesis api app qs speaker (Some v) st = (Inl unknown_version, st) \<and>
        synthesis_morphing_endpoint api app q b t rate (Some v) st = (Inl unknown_version, st) \<and>
        speakers api app (Some v) = Inl unknown_version \<and>
        speaker_info api app uuid (Some v) = Inl unknown_version \<and>
        supported_devices api app (Some v) = Inl unknown_version \<and>
        guided_accent_phrase api app text speaker is_kana audio nf (Some v) =
          (if g then Inl unknown_version else Inl experimental_disabled) \<and>
        guided_synthesis api app text speaker nf audio stereo rate' vs ps ss (Some v) st =
          (if g then (Inl unknown_version, st) else (Inl experimental_disabled, st))) \<and>
     (\<not> c \<longrightarrow> cancellable_synthesis api app q speaker req cv = Inl experimental_disabled)"
proof -
  from generate_app_latest[OF assms] obtain e where
    e: "engines latest = Some e" "app_engine app None = Inr e" and
    eng: "synthesis_engines app = engines" by blast
  have flags: "enable_guided_synthesis app = g" "enable_cancellable_synthesis app = c"
    using assms by (auto simp: generate_app_def split: option.splits)
  have known: "\<forall>v e. engines v = Some e \<longrightarrow> app_engine app (Some v) = Inr e"
    using eng by (simp add: app_engine_known)
  have unknown: "app_engine app (Some v) = Inl unknown_version" if "engines v = None" for v
    using that eng by (simp add: app_engine_unknown)
  have handlers:
    "audio_query api app text speaker (Some v) = Inl unknown_version"
    "audio_query_from_preset api app text pid (Some v) = Inl unknown_version"
    "accent_phrases api app text speaker is_kana (Some v) = Inl unknown_version"
    "mora_data api app aps speaker (Some v) = Inl unknown_version"
    "mora_length api app aps speaker (Some v) = Inl unknown_version"
    "mora_pitch api app aps speaker (Some v) = Inl unknown_version"
    "synthesis api app q speaker up (Some v) st = (Inl unknown_version, st)"
    "multi_synthesis api app qs speaker (Some v) st = (Inl unknown_version, st)"
    "synthesis_morphing_endpoint api app q b t rate (Some v) st = (Inl unknown_version, st)"
    "speakers api app (Some v) = Inl unknown_version"
    "speaker_info api app uuid (Some v) = Inl unknown_version"
    "supported_devices api app (Some v) = Inl unknown_version"
    "guided_accent_phrase api app text speaker is_kana audio nf (Some v) =
       (if g then Inl unknown_version else Inl experimental_disabled)"
    "guided_synthesis api app text speaker nf audio stereo rate' vs ps ss (Some v) st =
       (if g then (Inl unknown_version, st) else (Inl experimental_disabled, st))"
    if "engines v = None" for v
    using unknown[OF that] flags
    by (simp_all add: audio_query_def audio_query_from_preset_def accent_phrases_def
          mora_data_def mora_length_def mora_pitch_def synthesis_def multi_synthesis_def
          synthesis_morphing_endpoint_def speakers_def speaker_info_def supported_devices_def
          guided_accent_phrase_def guided_synthesis_def)
  have canc: "\<not> c \<longrightarrow> cancellable_synthesis api app q speaker req cv = Inl experimental_disabled"
    using flags by (simp add: cancellable_synthesis_def)
  show ?thesis using e known unknown handlers canc by simp
qed

theorem core_version_dispatch_witness:
  "generate_app sample_api False False [[49] \<mapsto> 0] [49] =
     Inr (sample_app, \<lparr>files = [], morph_cache = []\<rparr>) \<and>
   app_engine sample_app None = Inr 0 \<and>
   app_engine sample_app (Some [49]) = Inr 0 \<and>
   audio_query sample_api sample_app [] 0 (Some [50]) = Inl unknown_version \<and>
   synthesis sample_api sample_app sample_query 0 True (Some [50]) \<lparr>files = [], morph_cache = []\<rparr> =
     (Inl unknown_version, \<lparr>files = [], morph_cache = []\<rparr>) \<and>
   guided_accent_phrase sample_api sample_app [] 0 False 0 False (Some [50]) =
     Inl experimental_disabled \<and>
   cancellable_synthesis sample_api sample_app sample_query 0 0 (Some [50]) =
     Inl experimental_disabled"
proof -
  have h: "generate_app sample_api False False [[49] \<mapsto> 0] [49] =
             Inr (sample_app, \<lparr>files = [], morph_cache = []\<rparr>)"
    by (simp add: generate_app_def sample_app_def sample_api_def)
  show ?thesis
    using h core_version_dispatch[OF h, of "[]" 0 0 False "[]" sample_query True
        "\<lparr>files = [], morph_cache = []\<rparr>" "[]" 0 0 0 "[]" 0 False False 0 0 0 0 0 "Some [50]"]
    by simp
qed

text \<open>
  Claim C9 as stated fails: with guided synthesis disabled, \<open>guided_accent_phrase\<close>
  answers a version that is not a key of the engine dictionary with 404, not 422.
\<close>

theorem unknown_version_answered_404:
  "synthesis_engines sample_app [50] = None \<and>
   guided_accent_phrase sample_api sample_app [] 0 False 0 False (Some [50]) =
     Inl (HTTPException 404 (DetailStr msg_experimental_disabled)) \<and>
   guided_accent_phrase sample_api sample_app [] 0 False 0 False (Some [50]) \<noteq>
     Inl (HTTPException 422 (DetailStr msg_unknown_version))"
  by (simp add: sample_app_def guided_accent_phrase_def)

text \<open>
  Claim C6. In \<open>accent_phrases\<close> with \<open>is_kana\<close> true, once the engine is found: when
  \<open>parse_kana\<close> raises \<open>ParseKanaError\<close>, the handler raises \<open>HTTPException\<close> with
  status 400 and the \<open>ParseKanaBadRequest\<close> of that error as detail; when \<open>parse_kana\<close>
  returns phrases, the handler's outcome is that of \<open>replace_mora_data\<close> on those
  phrases and the speaker.
\<close>

theorem parse_failure_is_400:
  assumes "app_engine app core_version = Inr engine"
  shows "(\<forall>err. ext_parse_kana api text = Inl (ParseKanaError err) \<longrightarrow>
            accent_phrases api app text speaker True core_version =
              Inl (HTTPException 400 (DetailParseKanaBadRequest err))) \<and>
         (\<forall>aps. ext_parse_kana api text = Inr aps \<longrightarrow>
            accent_phrases api app text speaker True core_version =
              engine_replace_mora_data api engine aps speaker)"
  using assms by (simp add: accent_phrases_def parse_kana_or_400_def)

theorem parse_failure_is_400_witness:
  "app_engine sample_app None = Inr 0 \<and>
   ext_parse_kana sample_api [] = Inl (ParseKanaError sample_error) \<and>
   accent_phrases sample_api sample_app [] 0 True None =
     Inl (HTTPException 400 (DetailParseKanaBadRequest sample_error)) \<and>
   ext_parse_kana sample_api [12459, 39] = Inr [] \<and>
   accent_phrases sample_api sample_app [12459, 39] 0 True None =
     engine_replace_mora_data sample_api 0 [] 0"
proof -
  have h: "app_engine sample_app None = Inr 0"
    by (simp add: app_engine_def get_engine_def sample_app_def)
  have f: "ext_parse_kana sample_api [] = Inl (ParseKanaError sample_error)"
    and g: "ext_parse_kana sample_api [12459, 39] = Inr []"
    by (simp_all add: sample_api_def)
  show ?thesis
    using h f g parse_failure_is_400[OF h, of sample_api "[]" 0]
      parse_failure_is_400[OF h, of sample_api "[12459, 39]" 0]
    by simp
qed

text \<open>
  Claim C7. Whenever \<open>audio_query\<close> or \<open>audio_query_from_preset\<close> returns a query, the
  \<open>kana\<close> field of the query is what \<open>create_kana\<close> returns on the \<open>accent_phrases\<close>
  of that same query.
\<close>

theorem audio_query_kana_verbatim:
  "(audio_query api app text speaker cv = Inr q \<longrightarrow>
      ext_create_kana api (aq_accent_phrases q) = Inr (aq_kana q)) \<and>
   (audio_query_from_preset api app text pid cv = Inr q' \<longrightarrow>
      ext_create_kana api (aq_accent_phrases q') = Inr (aq_kana q'))"
  by (auto simp: audio_query_def audio_query_from_preset_def
           split: sum.splits prod.splits if_splits option.splits)

theorem audio_query_kana_verbatim_witness:
  "audio_query sample_api sample_app [] 0 None = Inr (sample_query\<lparr>aq_kana := ascii ''kana''\<rparr>) \<and>
   audio_query_from_preset sample_api sample_app [] 1 None =
     Inr (sample_query\<lparr>aq_kana := ascii ''kana''\<rparr>) \<and>
   ext_create_kana sample_api (aq_accent_phrases (sample_query\<lparr>aq_kana := ascii ''kana''\<rparr>)) =
     Inr (aq_kana (sample_query\<lparr>aq_kana := ascii ''kana''\<rparr>))"
proof -
  have a: "audio_query sample_api sample_app [] 0 None = Inr (sample_query\<lparr>aq_kana := ascii ''kana''\<rparr>)"
    by (simp add: audio_query_def app_engine_def get_engine_def sample_app_def sample_api_def
          sample_query_def)
  have b: "audio_query_from_preset sample_api sample_app [] 1 None =
             Inr (sample_query\<lparr>aq_kana := ascii ''kana''\<rparr>)"
    by (simp add: audio_query_from_preset_def app_engine_def get_engine_def sample_app_def
          sample_api_def sample_query_def)
  show ?thesis
    using a b audio_query_kana_verbatim[of sample_api sample_app "[]" 0 None
        "sample_query\<lparr>aq_kana := ascii ''kana''\<rparr>" 1 "sample_query\<lparr>aq_kana := ascii ''kana''\<rparr>"]
    by simp
qed

text \<open>
  Claim C10. When \<open>connect_base64_waves\<close> raises \<open>ConnectBase64WavesException\<close>,
  \<open>connect_waves\<close> returns (does not raise) the \<open>HTTPException\<close> object with status 422
  and writes no file; when it returns waves, the handler writes one WAV file and returns
  a \<open>FileResponse\<close> for it; and the handler writes a file or returns a \<open>FileResponse\<close>
  only in that case.
\<close>

theorem connect_waves_error_returned:
  "(\<forall>err. ext_connect_base64_waves api waves = Inl (ConnectBase64WavesException err) \<longrightarrow>
      connect_waves api waves st = (Inr (ReturnedHTTPException 422 (DetailStr err)), st)) \<and>
   (\<forall>w rate. ext_connect_base64_waves api waves = Inr (w, rate) \<longrightarrow>
      connect_waves api waves st =
        (Inr (FileResponse (TempFile (length (files st))) ''audio/wav''),
         st\<lparr>files := files st @ [WavFile w rate]\<rparr>)) \<and>
   (snd (connect_waves api waves st) \<noteq> st \<or>
    (\<exists>name media. fst (connect_waves api waves st) = Inr (FileResponse name media)) \<longrightarrow>
      (\<exists>w rate. ext_connect_base64_waves api waves = Inr (w, rate)))"
  by (auto simp: connect_waves_def write_wav_def split: sum.splits exn.splits prod.splits)

theorem connect_waves_error_returned_witness:
  "ext_connect_base64_waves sample_api [] = Inl (ConnectBase64WavesException (ascii ''no waves'')) \<and>
   connect_waves sample_api [] \<lparr>files = [], morph_cache = []\<rparr> =
     (Inr (ReturnedHTTPException 422 (DetailStr (ascii ''no waves''))),
      \<lparr>files = [], morph_cache = []\<rparr>) \<and>
   ext_connect_base64_waves sample_api [[65]] = Inr (5, 24000) \<and>
   connect_waves sample_api [[65]] \<lparr>files = [], morph_cache = []\<rparr> =
     (Inr (FileResponse (TempFile 0) ''audio/wav''),
      \<lparr>files = [WavFile 5 24000], morph_cache = []\<rparr>)"
proof -
  have f: "ext_connect_base64_waves sample_api [] =
             Inl (ConnectBase64WavesException (ascii ''no waves''))"
    and g: "ext_connect_base64_waves sample_api [[65]] = Inr (5, 24000)"
    by (simp_all add: sample_api_def)
  show ?thesis
    using f g connect_waves_error_returned[of sample_api "[]" "\<lparr>files = [], morph_cache = []\<rparr>"]
      connect_waves_error_returned[of sample_api "[[65]]" "\<lparr>files = [], morph_cache = []\<rparr>"]
    by simp
qed

lemma lru_cache_length:
  "length cache \<le> n \<Longrightarrow> 0 < n \<Longrightarrow> length (snd (lru_cache n f cache key)) \<le> n"
proof (cases "map_of cache key")
  case None
  assume "length cache \<le> n" "0 < n"
  then show ?thesis using None
    by (auto simp: lru_cache_def split: sum.splits)
next
  case (Some v)
  assume le: "length cache \<le> n"
  have "(key, v) \<in> set cache" using Some by (rule map_of_SomeD)
  then have "length (filter (\<lambda>kv. fst kv \<noteq> key) cache) < length cache"
    by (intro length_filter_less[where x="(key, v)"]) auto
  then show ?thesis using Some le by (simp add: lru_cache_def)
qed

lemma morph_param_cache_le:
  "synthesis_morphing_parameter api c e q b t = (r, c') \<Longrightarrow> length c \<le> 4 \<Longrightarrow> length c' \<le> 4"
  using lru_cache_length[of c 4 "\<lambda>(e, q, b, t). ext_synthesis_morphing_parameter api e q b t" "(e, q, b, t)"]
  by (simp add: synthesis_morphing_parameter_def)

lemma reachable_cache_le: "reachable api app st \<Longrightarrow> length (morph_cache st) \<le> 4"
proof (induction rule: reachable.induct)
  case start
  then show ?case by simp
next
  case (after_synthesis st q sp up cv)
  then show ?case by (auto simp: synthesis_def write_wav_def split: sum.splits)
next
  case (after_multi_synthesis st qs sp cv)
  then show ?case by (auto simp: multi_synthesis_def split: sum.splits list.splits prod.splits option.splits)
next
  case (after_synthesis_morphing st q b t r cv)
  then show ?case
    by (auto simp: synthesis_morphing_endpoint_def write_wav_def
             split: sum.splits prod.splits dest: morph_param_cache_le)
next
  case (after_guided_synthesis st k sp n f so sr vs ps ss cv)
  then show ?case by (auto simp: guided_synthesis_def write_wav_def split: sum.splits)
next
  case (after_connect_waves st ws)
  then show ?case by (auto simp: connect_waves_def write_wav_def split: sum.splits exn.splits prod.splits)
qed

lemma lru_cache_hit:
  "map_of cache key = Some v \<Longrightarrow>
   lru_cache n f cache key = (Inr v, filter (\<lambda>kv. fst kv \<noteq> key) cache @ [(key, v)])"
  by (simp add: lru_cache_def)

lemma lru_cache_miss:
  "map_of cache key = None \<Longrightarrow> f key = Inr v \<Longrightarrow>
   lru_cache n f cache key = (Inr v, (if n \<le> length cache then tl cache else cache) @ [(key, v)])"
  by (simp add: lru_cache_def)

text \<open>
  Claim C8. The cache around the morphing parameters is part of the server state of the
  HTTP layer and is keyed by the four arguments of the call. In every reachable state it
  holds at most 4 entries; a call whose key is cached returns the cached value and makes
  the entry the most recently used; a call whose key is not cached stores the new value
  and, when the cache holds 4 entries, drops the least recently used one.
\<close>

theorem morphing_cache_bounded:
  assumes "reachable api app st"
  shows
    "length (morph_cache st) \<le> 4 \<and>
     (\<forall>e q b t v. map_of (morph_cache st) (e, q, b, t) = Some v \<longrightarrow>
        synthesis_morphing_parameter api (morph_cache st) e q b t =
          (Inr v, filter (\<lambda>kv. fst kv \<noteq> (e, q, b, t)) (morph_cache st) @ [((e, q, b, t), v)])) \<and>
     (\<forall>e q b t v. map_of (morph_cache st) (e, q, b, t) = None \<longrightarrow>
        ext_synthesis_morphing_parameter api e q b t = Inr v \<longrightarrow>
        synthesis_morphing_parameter api (morph_cache st) e q b t =
          (Inr v, (if length (morph_cache st) = 4 then tl (morph_cache st) else morph_cache st) @
                  [((e, q, b, t), v)]))"
proof -
  have le: "length (morph_cache st) \<le> 4" using assms by (rule reachable_cache_le)
  then have eq: "(4 \<le> length (morph_cache st)) = (length (morph_cache st) = 4)" by auto
  show ?thesis using le
    by (simp add: synthesis_morphing_parameter_def lru_cache_hit lru_cache_miss eq)
qed

theorem morphing_cache_bounded_witness:
  "reachable sample_api sample_app
     (snd (synthesis_morphing_endpoint sample_api sample_app sample_query 1 2 0 None
            \<lparr>files = [], morph_cache = []\<rparr>)) \<and>
   morph_cache (snd (synthesis_morphing_endpoint sample_api sample_app sample_query 1 2 0 None
            \<lparr>files = [], morph_cache = []\<rparr>)) = [((0, sample_query, 1, 2), 3)] \<and>
   synthesis_morphing_parameter sample_api [((0, sample_query, 1, 2), 3)] 0 sample_query 1 2 =
     (Inr 3, [((0, sample_query, 1, 2), 3)]) \<and>
   synthesis_morphing_parameter sample_api [((0, sample_query, 1, 2), 3)] 0 sample_query 2 2 =
     (Inr 4, [((0, sample_query, 1, 2), 3), ((0, sample_query, 2, 2), 4)])"
proof -
  let ?st = "snd (synthesis_morphing_endpoint sample_api sample_app sample_query 1 2 0 None
            \<lparr>files = [], morph_cache = []\<rparr>)"
  have r: "reachable sample_api sample_app ?st"
    by (rule reachable.after_synthesis_morphing) (rule reachable.start)
  have c: "morph_cache ?st = [((0, sample_query, 1, 2), 3)]"
    by (simp add: synthesis_morphing_endpoint_def app_engine_def get_engine_def sample_app_def
          synthesis_morphing_parameter_def lru_cache_def sample_api_def write_wav_def)
  have m: "ext_synthesis_morphing_parameter sample_api 0 sample_query 2 2 = Inr 4"
    by (simp add: sample_api_def)
  show ?thesis
    using r c m morphing_cache_bounded[OF r] by simp
qed

section \<open>Properties of the kana notation\<close>

subsection \<open>Longest match\<close>

lemma longest_match_SomeD:
  "longest_match tbl cs = Some (k, ph) \<Longrightarrow> k \<noteq> [] \<and> prefix k cs \<and> (k, ph) \<in> set tbl"
  by (induction tbl arbitrary: k ph) (auto split: option.splits if_splits)

lemma longest_match_ge:
  "(k, ph) \<in> set tbl \<Longrightarrow> k \<noteq> [] \<Longrightarrow> prefix k cs \<Longrightarrow>
   \<exists>k' ph'. longest_match tbl cs = Some (k', ph') \<and> length k \<le> length k'"
  by (induction tbl) (auto split: option.splits if_splits)

subsection \<open>Accent, pause and error position\<close>

lemma close_phrase_accents_ok:
  "accents_ok st \<Longrightarrow> close_phrase env st pause off = Inr st' \<Longrightarrow> accents_ok st'"
  by (auto simp: close_phrase_def accents_ok_def accent_in_range_def split: if_splits option.splits)

lemma step_accents_ok:
  "accents_ok st \<Longrightarrow> step env st u off = Inr st' \<Longrightarrow> accents_ok st'"
  by (cases u)
     (auto simp: step_def accents_ok_def accent_in_range_def close_phrase_def
             Suc_le_eq
           split: if_splits option.splits)

lemma run_accents_ok:
  "accents_ok st \<Longrightarrow> run env st us err n = Inr p \<Longrightarrow> \<forall>ph \<in> set p. accent_in_range ph"
proof (induction us arbitrary: st)
  case Nil
  then show ?case
    by (auto simp: accents_ok_def dest!: close_phrase_accents_ok[rotated] split: option.splits sum.splits)
next
  case (Cons a us)
  obtain u off where a: "a = (u, off)" by (cases a)
  from Cons.prems(2) obtain st' where s: "step env st u off = Inr st'" and r: "run env st' us err n = Inr p"
    by (auto simp: a split: sum.splits)
  from step_accents_ok[OF Cons.prems(1) s] r show ?case by (rule Cons.IH)
qed

text \<open>
  Claim C3. Every phrase of a successful parse has its accent between 1 and the number
  of its morae, so exactly one mora of the phrase is the accent position.
\<close>

theorem accent_invariant:
  assumes "parse_kana env s = Inr p"
  shows "\<forall>ph \<in> set p. 1 \<le> accent ph \<and> accent ph \<le> length (moras ph) \<and>
           (\<exists>!j. j < length (moras ph) \<and> accent ph = j + 1)"
proof -
  have "accents_ok init_state" by (simp add: accents_ok_def init_state_def)
  then have "\<forall>ph \<in> set p. accent_in_range ph"
    using assms by (auto simp: parse_kana_def split: prod.splits dest: run_accents_ok)
  moreover have "\<exists>!j. j < length (moras ph) \<and> accent ph = j + 1" if "accent_in_range ph" for ph
    using that by (intro ex1I[where a="accent ph - 1"]) (auto simp: accent_in_range_def)
  ultimately show ?thesis by (auto simp: accent_in_range_def)
qed

lemma step_pauses:
  "step env st u off = Inr st' \<Longrightarrow>
   map pause_mora (done_phrases st') =
     map pause_mora (done_phrases st) @
     map (\<lambda>b. if b then Some (silent_mora env) else None) (closing_pauses [(u, off)])"
  by (cases u)
     (auto simp: step_def close_phrase_def closing_pauses_def split: if_splits option.splits)

lemma closing_pauses_Cons:
  "closing_pauses (a # us) = closing_pauses [a] @ closing_pauses us"
  by (simp add: closing_pauses_def)

lemma run_pauses:
  "run env st us err n = Inr p \<Longrightarrow>
   map pause_mora p =
     map pause_mora (done_phrases st) @
     map (\<lambda>b. if b then Some (silent_mora env) else None) (closing_pauses us) @ [None]"
proof (induction us arbitrary: st)
  case Nil
  then show ?case
    by (auto simp: close_phrase_def closing_pauses_def split: option.splits sum.splits if_splits)
next
  case (Cons a us)
  obtain u off where a: "a = (u, off)" by (cases a)
  from Cons.prems obtain st' where s: "step env st u off = Inr st'" and r: "run env st' us err n = Inr p"
    by (auto simp: a split: sum.splits)
  show ?case
    using Cons.IH[OF r] step_pauses[OF s] closing_pauses_Cons[of a us] by (simp add: a)
qed

theorem accent_invariant_witness:
  "parse_kana sample_env sample_text = Inr sample_phrases \<and>
   1 \<le> accent (sample_phrases ! 0) \<and>
   accent (sample_phrases ! 0) \<le> length (moras (sample_phrases ! 0)) \<and>
   1 \<le> accent (sample_phrases ! 1) \<and>
   accent (sample_phrases ! 1) \<le> length (moras (sample_phrases ! 1))"
proof -
  have h: "parse_kana sample_env sample_text = Inr sample_phrases"
    by (simp add: parse_kana_def sample_env_def sample_text_def sample_phrases_def classify_def
          step_def close_phrase_def init_state_def base_mora_def silent_mora_def)
  have m: "sample_phrases ! 0 \<in> set sample_phrases" "sample_phrases ! 1 \<in> set sample_phrases"
    by (simp_all add: sample_phrases_def)
  show ?thesis using h accent_invariant[OF h] m by blast
qed

text \<open>
  Claim C4. In a successful parse, the phrases correspond to the delimiters of the
  input in order, followed by the phrase that the end of the input closes: a phrase
  closed by the pause delimiter has the silent mora (empty text, the silence phoneme as
  vowel, no consonant) as its pause mora, a phrase closed by the plain delimiter or by
  the end of the input has none.
\<close>

theorem pause_placement:
  assumes "parse_kana env s = Inr p"
  shows "map pause_mora p =
           map (\<lambda>b. if b then Some (silent_mora env) else None)
             (closing_pauses (fst (tokenize env 0 s))) @ [None] \<and>
         mora_text (silent_mora env) = [] \<and> vowel (silent_mora env) = silence env \<and>
         consonant (silent_mora env) = None"
  using assms
  by (auto simp: parse_kana_def silent_mora_def init_state_def split: prod.splits dest!: run_pauses)

theorem pause_placement_witness:
  "parse_kana sample_env sample_text = Inr sample_phrases \<and>
   closing_pauses (fst (tokenize sample_env 0 sample_text)) = [True] \<and>
   map pause_mora sample_phrases = [Some (silent_mora sample_env), None]"
proof -
  have h: "parse_kana sample_env sample_text = Inr sample_phrases"
    by (simp add: parse_kana_def sample_env_def sample_text_def sample_phrases_def classify_def
          step_def close_phrase_def init_state_def base_mora_def silent_mora_def)
  have c: "closing_pauses (fst (tokenize sample_env 0 sample_text)) = [True]"
    by (simp add: closing_pauses_def sample_env_def sample_text_def classify_def)
  show ?thesis using h c pause_placement[OF h] by simp
qed

lemma longest_match_single:
  assumes "[c] \<in> fst ` set tbl" and "\<forall>k \<in> fst ` set tbl. c' \<notin> set k"
  shows "\<exists>co v. longest_match tbl (c # c' # rest) = Some ([c], co, v)"
proof -
  from assms(1) obtain ph where "([c], ph) \<in> set tbl" by auto
  from longest_match_ge[OF this, of "c # c' # rest"] obtain k' ph' where
    lm: "longest_match tbl (c # c' # rest) = Some (k', ph')" by auto
  from longest_match_SomeD[OF lm] have k': "k' \<noteq> []" "prefix k' (c # c' # rest)" "(k', ph') \<in> set tbl"
    by auto
  then have "c' \<notin> set k'" using assms(2) by force
  with k'(1,2) have "k' = [c]"
    by (cases k'; cases "tl k'") (auto simp: prefix_Cons)
  with lm show ?thesis by (cases ph') auto
qed

text \<open>
  Claim C5. When KA and KI are tokens of the table and no token contains the
  apostrophe, parsing KA ' KI ' KU fails with \<open>MultipleAccentMarks\<close> at offset 3, the
  offset of the second apostrophe.
\<close>

theorem duplicate_accent_position:
  assumes "[12459] \<in> fst ` set (table env)" and "[12461] \<in> fst ` set (table env)"
    and "\<forall>k \<in> fst ` set (table env). 39 \<notin> set k"
  shows "parse_kana env [12459, 39, 12461, 39, 12463] = Inl (kana_error env MultipleAccentMarks 3) \<and>
         error_name (kana_error env MultipleAccentMarks 3) = MultipleAccentMarks \<and>
         position (kana_error env MultipleAccentMarks 3) = 3"
proof -
  from longest_match_single[OF assms(1,3)] obtain co v where
    a: "longest_match (table env) [12459, 39, 12461, 39, 12463] = Some ([12459], co, v)" by blast
  from longest_match_single[OF assms(2,3)] obtain co' v' where
    b: "longest_match (table env) [12461, 39, 12463] = Some ([12461], co', v')" by blast
  show ?thesis
    by (simp add: parse_kana_def classify_def a b step_def init_state_def kana_error_def
          split: prod.splits)
qed

theorem duplicate_accent_position_witness:
  "[12459] \<in> fst ` set (table sample_env) \<and> [12461] \<in> fst ` set (table sample_env) \<and>
   parse_kana sample_env [12459, 39, 12461, 39, 12463] =
     Inl \<lparr>message = [], error_name = MultipleAccentMarks, position = 3\<rparr>"
proof -
  have h: "[12459] \<in> fst ` set (table sample_env)" "[12461] \<in> fst ` set (table sample_env)"
    "\<forall>k \<in> fst ` set (table sample_env). 39 \<notin> set k"
    by (simp_all add: sample_env_def)
  show ?thesis
    using h duplicate_accent_position[OF h] by (simp add: kana_error_def sample_env_def)
qed

section \<open>The forward round trip\<close>

subsection \<open>Longest match and markers\<close>


lemma token_start_Cons: "token_start (c # k) \<longleftrightarrow> classify c = None"
  by (simp add: token_start_def)







subsection \<open>The tokenizer\<close>


lemma tokenize_tokens:
  "tokens env s = Some ks \<Longrightarrow> \<exists>us. tokenize env pos s = (us, None) \<and> map fst us = ks"
proof (induction env s arbitrary: ks pos rule: tokens.induct)
  case (1 env)
  then show ?case by simp
next
  case (2 env c cs)
  show ?case
  proof (cases "classify c")
    case (Some u)
    with "2.prems" obtain ks' where k: "tokens env cs = Some ks'" "ks = u # ks'" by auto
    from "2.IH"(2)[OF Some k(1), of "pos + 1"] obtain us where
      "tokenize env (pos + 1) cs = (us, None)" "map fst us = ks'" by blast
    then show ?thesis using Some k by simp
  next
    case None
    with "2.prems" obtain k co v ks' where
      lm: "longest_match (table env) (c # cs) = Some (k, co, v)" and
      t: "tokens env (drop (length k - 1) cs) = Some ks'" and
      ks: "ks = KanaMora k co v # ks'"
      by (auto split: option.splits prod.splits)
    from "2.IH"(1)[OF None lm refl refl t, of "pos + length k"] obtain us where
      "tokenize env (pos + length k) (drop (length k - 1) cs) = (us, None)" "map fst us = ks'"
      by blast
    then show ?thesis using None lm ks by simp
  qed
qed


subsection \<open>Offsets do not decide success\<close>

lemma close_phrase_same:
  "same_upto_start st st' \<Longrightarrow> close_phrase env st b off = Inr t \<Longrightarrow>
   \<exists>t'. close_phrase env st' b off' = Inr t' \<and> same_upto_start t t'"
  by (auto simp: close_phrase_def same_upto_start_def split: if_splits option.splits)

lemma step_same:
  "same_upto_start st st' \<Longrightarrow> step env st u off = Inr t \<Longrightarrow>
   \<exists>t'. step env st' u off' = Inr t' \<and> same_upto_start t t'"
proof (cases u)
  case PlainDelimiter
  then show "same_upto_start st st' \<Longrightarrow> step env st u off = Inr t \<Longrightarrow> ?thesis"
    by (simp add: step_def close_phrase_same)
next
  case PauseDelimiter
  then show "same_upto_start st st' \<Longrightarrow> step env st u off = Inr t \<Longrightarrow> ?thesis"
    by (simp add: step_def close_phrase_same)
qed (auto simp: step_def same_upto_start_def split: if_splits)

lemma run_same:
  "same_upto_start st st' \<Longrightarrow> map fst us = map fst us' \<Longrightarrow>
   run env st us None n = Inr p \<Longrightarrow> run env st' us' None n' = Inr p"
proof (induction us arbitrary: us' st st')
  case Nil
  then obtain t where t: "close_phrase env st False n = Inr t" "done_phrases t = p"
    by (auto split: sum.splits)
  from close_phrase_same[OF Nil.prems(1) t(1), of n'] t(2) Nil.prems(2) show ?case
    by (auto simp: same_upto_start_def)
next
  case (Cons a us)
  obtain u off where a: "a = (u, off)" by (cases a)
  from Cons.prems(2) obtain off' us2 where us': "us' = (u, off') # us2" "map fst us = map fst us2"
    by (cases us') (auto simp: a)
  from Cons.prems(3) obtain t where t: "step env st u off = Inr t" "run env t us None n = Inr p"
    by (auto simp: a split: sum.splits)
  from step_same[OF Cons.prems(1) t(1), of off'] obtain t' where
    t': "step env st' u off' = Inr t'" "same_upto_start t t'" by blast
  from Cons.IH[OF t'(2) us'(2) t(2)] t'(1) show ?case by (simp add: us')
qed


lemma run_append:
  "run env st (xs @ ys) e n =
     (case steps env st xs of Inl er \<Rightarrow> Inl er | Inr st' \<Rightarrow> run env st' ys e n)"
  by (induction xs arbitrary: st) (auto split: sum.splits)

lemma steps_append:
  "steps env st (xs @ ys) =
     (case steps env st xs of Inl er \<Rightarrow> Inl er | Inr st' \<Rightarrow> steps env st' ys)"
  by (induction xs arbitrary: st) (auto split: sum.splits)


subsection \<open>An accent mark commutes with the long-vowel marks after it\<close>



subsection \<open>What the serializer writes for a state\<close>







lemma set_canonical_units: "set (canonical_units us) = set us"
proof (induction us rule: canonical_units.induct)
  case 1
  then show ?case by simp
next
  case (2 x xs)
  have "set (takeWhile is_long xs) \<union> set (dropWhile is_long xs) = set xs"
    by (metis set_append takeWhile_dropWhile_id)
  with 2 show ?case by auto
qed









subsection \<open>The canonical order tokenizes to itself\<close>

lemma tokens_marker:
  "classify c = Some u \<Longrightarrow> tokens env (c # cs) = map_option ((#) u) (tokens env cs)"
  by simp









subsection \<open>The round trip\<close>



subsection \<open>The forward round trip and its conditions\<close>




text \<open>
  The conditions on the parameters cannot be dropped. With a table token that ends in
  the long-vowel mark, the text KA, apostrophe, long-vowel mark parses to the mora KA
  lengthened, which is written with the text of that token and parses to the token's
  own mora. With a devoiced form that has another text, the text written for the
  devoiced KA is not accepted.
\<close>

lemma long_token_read_differently:
  "(case parse_kana long_token_env [12459, 39, 12540] of
      Inl e \<Rightarrow> False
    | Inr p \<Rightarrow> create_kana long_token_env p = [12459, 12540, 39] \<and>
               parse_kana long_token_env (create_kana long_token_env p) \<noteq> Inr p)"
  by (simp add: parse_kana_def long_token_env_def sample_env_def classify_def step_def
        close_phrase_def init_state_def base_mora_def phrase_kana_def)

lemma devoiced_text_not_accepted:
  "(case parse_kana devoiced_text_env [95, 12459, 39] of
      Inl e \<Rightarrow> False
    | Inr p \<Rightarrow> create_kana devoiced_text_env p = [95, 12459, 12442, 39] \<and>
               parse_kana devoiced_text_env (create_kana devoiced_text_env p) =
                 Inl \<lparr>message = [], error_name = UnknownCharacter, position = 2\<rparr>)"
  by (simp add: parse_kana_def devoiced_text_env_def sample_env_def classify_def step_def
        close_phrase_def init_state_def base_mora_def phrase_kana_def kana_error_def)

section \<open>The reverse round trip\<close>

subsection \<open>The text written for a list\<close>

lemma create_kana_Cons:
  "create_kana env (ph # phs) = moras_kana env (accent ph) 0 (moras ph) @ phrase_tail env ph phs"
  by (cases phs) (simp_all add: phrase_kana_def phrase_tail_def)

lemma tokens_long_marks:
  "tokens env (replicate n 12540 @ s) =
     map_option ((@) (replicate n LongVowelExtension)) (tokens env s)"
proof (induction n)
  case 0
  show ?case by (simp add: option.map_ident)
next
  case (Suc n)
  have "classify 12540 = Some LongVowelExtension" by (simp add: classify_def)
  then show ?case using Suc by (simp add: option.map_comp comp_def)
qed

lemma tokens_mora:
  assumes rb: "mora_reads_back env m rest" and t: "tokens env rest = Some ks"
  shows "tokens env ((if unvoiced_vowel env (vowel m) then [95] else []) @ mora_text m @ rest) =
           Some (mora_units env m rest @ ks)"
proof -
  from rb obtain k co v where
    lm: "longest_match (table env) (mora_text m @ rest) = Some (k, co, v)" and
    tx: "mora_text m = k @ replicate (length (mora_text m) - length k) 12540" and
    ts: "token_start (mora_text m)"
    by (auto simp: mora_reads_back_def split: option.splits)
  let ?n = "length (mora_text m) - length k"
  from longest_match_SomeD[OF lm] have kn: "k \<noteq> []" by simp
  then obtain c k' where k: "k = c # k'" by (cases k) auto
  from tx have tx': "mora_text m = c # (k' @ replicate ?n 12540)" by (simp add: k)
  from ts tx' have c: "classify c = None" by (cases "mora_text m") (auto simp: token_start_def)
  have e: "mora_text m @ rest = c # (k' @ replicate ?n 12540 @ rest)"
    using tx' by (metis append_Cons append_assoc)
  have "tokens env (c # (k' @ replicate ?n 12540 @ rest)) =
          map_option ((#) (KanaMora k co v)) (tokens env (replicate ?n 12540 @ rest))"
    using lm c unfolding e by (simp add: k)
  also have "\<dots> = Some (KanaMora k co v # replicate ?n LongVowelExtension @ ks)"
    by (simp add: tokens_long_marks t)
  finally have a: "tokens env (mora_text m @ rest) =
                     Some (KanaMora k co v # replicate ?n LongVowelExtension @ ks)"
    unfolding e .
  have d: "classify 95 = Some Devoice" by (simp add: classify_def)
  show ?thesis using a d by (simp add: mora_units_def lm)
qed

lemma tokens_moras:
  "moras_read_back env a j ms tail \<Longrightarrow> tokens env tail = Some ks \<Longrightarrow>
   tokens env (moras_kana env a j ms @ tail) = Some (moras_units env a j ms tail @ ks)"
proof (induction ms arbitrary: j)
  case Nil
  then show ?case by simp
next
  case (Cons m ms)
  let ?acc = "if j + 1 = a then [39] else []"
  let ?rest = "?acc @ moras_kana env a (j + 1) ms @ tail"
  from Cons.prems(1) have rb: "mora_reads_back env m ?rest"
    and rbs: "moras_read_back env a (j + 1) ms tail" by simp_all
  have ih: "tokens env (moras_kana env a (j + 1) ms @ tail) =
              Some (moras_units env a (j + 1) ms tail @ ks)"
    by (rule Cons.IH[OF rbs Cons.prems(2)])
  have am: "classify 39 = Some AccentMark" by (simp add: classify_def)
  have r: "tokens env ?rest =
             Some ((if j + 1 = a then [AccentMark] else []) @ moras_units env a (j + 1) ms tail @ ks)"
    using ih am by auto
  from tokens_mora[OF rb r] show ?case by simp
qed

lemma tokens_create_kana:
  "reads_back env p \<Longrightarrow> tokens env (create_kana env p) = Some (phrases_units env p)"
proof (induction p)
  case Nil
  show ?case by simp
next
  case (Cons ph phs)
  from Cons.prems have rb: "moras_read_back env (accent ph) 0 (moras ph) (phrase_tail env ph phs)"
    and rbs: "reads_back env phs" by simp_all
  note ih = Cons.IH[OF rbs]
  have q: "classify 65311 = Some Interrogative" by (simp add: classify_def)
  have dl: "classify (delimiter_of ph) = Some (delimiter_unit ph)"
    by (simp add: delimiter_of_def delimiter_unit_def classify_def)
  have t: "tokens env (phrase_tail env ph phs) =
             Some (tail_units ph @
                   (case phs of [] \<Rightarrow> [] | _ # _ \<Rightarrow> delimiter_unit ph # phrases_units env phs))"
  proof (cases phs)
    case Nil
    then show ?thesis using q by (simp add: phrase_tail_def tail_units_def)
  next
    case (Cons x xs)
    have "tokens env (delimiter_of ph # create_kana env phs) =
            Some (delimiter_unit ph # phrases_units env phs)"
      using dl ih by simp
    then show ?thesis using q unfolding Cons by (simp add: phrase_tail_def tail_units_def)
  qed
  from tokens_moras[OF rb t] show ?case by (simp add: create_kana_Cons)
qed

subsection \<open>The parser on the units of that text\<close>

lemma at0_append: "at0 (xs @ ys) = at0 xs @ at0 ys"
  by (simp add: at0_def)

lemma at0_Cons: "at0 (x # xs) = (x, 0) # at0 xs"
  by (simp add: at0_def)

lemma at0_Nil: "at0 [] = []"
  by (simp add: at0_def)

lemma map_fst_at0: "map fst (at0 ks) = ks"
  by (simp add: at0_def comp_def)

lemma steps_long_marks:
  "\<not> seen_interrogative st \<Longrightarrow> \<not> pending_devoice st \<Longrightarrow> cur_moras st = pre @ [m0] \<Longrightarrow>
   steps env st (at0 (replicate n LongVowelExtension)) =
     Inr (st\<lparr>cur_moras := pre @ [lengthen env n m0]\<rparr>)"
proof (induction n arbitrary: st m0)
  case 0
  then show ?case by (simp add: at0_Nil lengthen_def)
next
  case (Suc n)
  let ?t = "st\<lparr>cur_moras := pre @ [extend_vowel env m0]\<rparr>"
  have s: "step env st LongVowelExtension 0 = Inr ?t"
    using Suc.prems by (simp add: step_def)
  have "steps env ?t (at0 (replicate n LongVowelExtension)) =
          Inr (?t\<lparr>cur_moras := pre @ [lengthen env n (extend_vowel env m0)]\<rparr>)"
    by (rule Suc.IH) (use Suc.prems in simp_all)
  then show ?case using s
    by (simp add: at0_Cons lengthen_def funpow_swap1)
qed

lemma steps_mora:
  assumes ni: "\<not> seen_interrogative st" and np: "\<not> pending_devoice st"
    and rb: "mora_reads_back env m rest"
  shows "steps env st (at0 (mora_units env m rest)) =
           Inr (st\<lparr>cur_moras := cur_moras st @ [rebuilt_mora env m rest]\<rparr>)"
proof -
  from rb obtain k co v where
    lm: "longest_match (table env) (mora_text m @ rest) = Some (k, co, v)"
    by (auto simp: mora_reads_back_def split: option.splits)
  let ?n = "length (mora_text m) - length k"
  let ?b = "if unvoiced_vowel env (vowel m) then unvoice env (base_mora k co v)
            else base_mora k co v"
  let ?t = "st\<lparr>cur_moras := cur_moras st @ [?b]\<rparr>"
  have l: "steps env ?t (at0 (replicate ?n LongVowelExtension)) =
             Inr (?t\<lparr>cur_moras := cur_moras st @ [lengthen env ?n ?b]\<rparr>)"
    by (rule steps_long_marks) (use ni np in simp_all)
  show ?thesis
  proof (cases "unvoiced_vowel env (vowel m)")
    case True
    have d: "step env st Devoice 0 = Inr (st\<lparr>pending_devoice := True\<rparr>)"
      using ni np by (simp add: step_def)
    have k: "step env (st\<lparr>pending_devoice := True\<rparr>) (KanaMora k co v) 0 = Inr ?t"
      using ni np True by (simp add: step_def)
    show ?thesis using d k l True
      by (simp add: mora_units_def rebuilt_mora_def built_mora_def lm at0_Cons)
  next
    case False
    have k: "step env st (KanaMora k co v) 0 = Inr ?t"
      using ni np False by (simp add: step_def)
    show ?thesis using k l False
      by (simp add: mora_units_def rebuilt_mora_def built_mora_def lm at0_Cons)
  qed
qed

lemma length_rebuilt_moras: "length (rebuilt_moras env a j ms tail) = length ms"
  by (induction ms arbitrary: j) simp_all

lemma steps_moras:
  "\<not> seen_interrogative st \<Longrightarrow> \<not> pending_devoice st \<Longrightarrow> length (cur_moras st) = j \<Longrightarrow>
   cur_accent st = (if 1 \<le> a \<and> a \<le> j then Some a else None) \<Longrightarrow>
   moras_read_back env a j ms tail \<Longrightarrow>
   steps env st (at0 (moras_units env a j ms tail)) =
     Inr (st\<lparr>cur_moras := cur_moras st @ rebuilt_moras env a j ms tail,
             cur_accent := (if 1 \<le> a \<and> a \<le> j + length ms then Some a else None)\<rparr>)"
proof (induction ms arbitrary: st j)
  case Nil
  then show ?case by (simp add: at0_Nil)
next
  case (Cons m ms)
  let ?rest = "(if j + 1 = a then [39] else []) @ moras_kana env a (j + 1) ms @ tail"
  let ?m' = "rebuilt_mora env m ?rest"
  let ?t = "st\<lparr>cur_moras := cur_moras st @ [?m']\<rparr>"
  let ?u = "if j + 1 = a then ?t\<lparr>cur_accent := Some a\<rparr> else ?t"
  from Cons.prems(5) have rb: "mora_reads_back env m ?rest"
    and rbs: "moras_read_back env a (j + 1) ms tail" by simp_all
  have s1: "steps env st (at0 (mora_units env m ?rest)) = Inr ?t"
    by (rule steps_mora[OF Cons.prems(1,2) rb])
  have s2: "steps env ?t (at0 (if j + 1 = a then [AccentMark] else [])) = Inr ?u"
    using Cons.prems(1-4) by (auto simp: at0_Cons at0_Nil step_def)
  have s3: "steps env ?u (at0 (moras_units env a (j + 1) ms tail)) =
              Inr (?u\<lparr>cur_moras := cur_moras ?u @ rebuilt_moras env a (j + 1) ms tail,
                      cur_accent := (if 1 \<le> a \<and> a \<le> (j + 1) + length ms then Some a else None)\<rparr>)"
    by (rule Cons.IH) (use Cons.prems(1-4) rbs in \<open>auto\<close>)
  show ?case using s1 s2 s3
    by (auto simp: at0_append steps_append)
qed

lemma run_phrases:
  "p \<noteq> [] \<Longrightarrow> \<forall>ph \<in> set p. 1 \<le> accent ph \<and> accent ph \<le> length (moras ph) \<Longrightarrow>
   reads_back env p \<Longrightarrow> cur_moras st = [] \<Longrightarrow> cur_accent st = None \<Longrightarrow>
   \<not> pending_devoice st \<Longrightarrow> \<not> seen_interrogative st \<Longrightarrow>
   run env st (at0 (phrases_units env p)) None n = Inr (done_phrases st @ rebuilt env p)"
proof (induction p arbitrary: st)
  case Nil
  then show ?case by simp
next
  case (Cons ph phs)
  let ?tail = "phrase_tail env ph phs"
  let ?ms = "rebuilt_moras env (accent ph) 0 (moras ph) ?tail"
  let ?t = "st\<lparr>cur_moras := ?ms, cur_accent := Some (accent ph)\<rparr>"
  let ?u = "?t\<lparr>seen_interrogative := is_interrogative ph\<rparr>"
  from Cons.prems(2) have a: "1 \<le> accent ph" "accent ph \<le> length (moras ph)" by simp_all
  from Cons.prems(3) have rb: "moras_read_back env (accent ph) 0 (moras ph) ?tail"
    and rbs: "reads_back env phs" by simp_all
  have "steps env st (at0 (moras_units env (accent ph) 0 (moras ph) ?tail)) =
          Inr (st\<lparr>cur_moras := cur_moras st @ ?ms,
                  cur_accent := (if 1 \<le> accent ph \<and> accent ph \<le> 0 + length (moras ph)
                                 then Some (accent ph) else None)\<rparr>)"
    by (rule steps_moras) (use Cons.prems(4-7) rb in simp_all)
  then have s1: "steps env st (at0 (moras_units env (accent ph) 0 (moras ph) ?tail)) = Inr ?t"
    using a Cons.prems(4) by simp
  have s2: "steps env ?t (at0 (tail_units ph)) = Inr ?u"
    using Cons.prems(6,7) by (simp add: tail_units_def at0_Cons at0_Nil step_def)
  have ne: "?ms \<noteq> []" using a length_rebuilt_moras[of env "accent ph" 0 "moras ph" ?tail]
    by (cases ?ms) auto
  show ?case
  proof (cases phs)
    case Nil
    have h: "run env ?u [] None n =
               Inr (done_phrases st @
                    [\<lparr>moras = ?ms, accent = accent ph, pause_mora = None,
                      is_interrogative = is_interrogative ph\<rparr>])"
      using ne Cons.prems(6) by (simp add: close_phrase_def)
    have "run env st (at0 (moras_units env (accent ph) 0 (moras ph) ?tail) @
                      at0 (tail_units ph) @ []) None n =
            Inr (done_phrases st @
                 [\<lparr>moras = ?ms, accent = accent ph, pause_mora = None,
                   is_interrogative = is_interrogative ph\<rparr>])"
      unfolding run_append using s1 s2 h by simp
    then show ?thesis by (simp add: Nil at0_append)
  next
    case (Cons x xs)
    let ?ph' = "\<lparr>moras = ?ms, accent = accent ph,
                  pause_mora = (if pause_mora ph = None then None else Some (silent_mora env)),
                  is_interrogative = is_interrogative ph\<rparr>"
    let ?v = "\<lparr>done_phrases = done_phrases st @ [?ph'], cur_moras = [], cur_accent = None,
               pending_devoice = False, seen_interrogative = False, phrase_start = 0 + 1\<rparr>"
    have s3: "step env ?u (delimiter_unit ph) 0 = Inr ?v"
      using ne Cons.prems(6) by (simp add: delimiter_unit_def step_def close_phrase_def)
    have "run env ?v (at0 (phrases_units env phs)) None n = Inr (done_phrases ?v @ rebuilt env phs)"
      by (rule Cons.IH) (use Cons.prems(2) rbs Cons in simp_all)
    then show ?thesis using s1 s2 s3 unfolding Cons
      by (simp add: at0_append run_append at0_Cons)
  qed
qed

subsection \<open>The list read back\<close>

lemma rebuilt_mora_same:
  "mora_reads_back env m rest \<Longrightarrow> same_mora m (rebuilt_mora env m rest)"
  by (auto simp: mora_reads_back_def rebuilt_mora_def split: option.splits)

lemma rebuilt_moras_same:
  "moras_read_back env a j ms tail \<Longrightarrow> list_all2 same_mora ms (rebuilt_moras env a j ms tail)"
proof (induction ms arbitrary: j)
  case Nil
  show ?case by simp
next
  case (Cons m ms)
  let ?rest = "(if j + 1 = a then [39] else []) @ moras_kana env a (j + 1) ms @ tail"
  from Cons.prems have rb: "mora_reads_back env m ?rest"
    and rbs: "moras_read_back env a (j + 1) ms tail" by simp_all
  have "rebuilt_moras env a j (m # ms) tail =
          rebuilt_mora env m ?rest # rebuilt_moras env a (j + 1) ms tail"
    by (rule rebuilt_moras.simps)
  then show ?case using rebuilt_mora_same[OF rb] Cons.IH[OF rbs] by (simp only: list_all2_Cons)
qed

lemma rebuilt_same:
  "p \<noteq> [] \<Longrightarrow> reads_back env p \<Longrightarrow> pause_mora (last p) = None \<Longrightarrow> grammar_eq p (rebuilt env p)"
proof (induction p)
  case Nil
  then show ?case by simp
next
  case (Cons ph phs)
  from Cons.prems(2) have rb: "moras_read_back env (accent ph) 0 (moras ph) (phrase_tail env ph phs)"
    and rbs: "reads_back env phs" by simp_all
  note m = rebuilt_moras_same[OF rb]
  show ?case
  proof (cases phs)
    case Nil
    with Cons.prems(3) m show ?thesis by (simp add: grammar_eq_def same_phrase_def)
  next
    case (Cons x xs)
    with Cons.IH rbs Cons.prems(3) have "grammar_eq phs (rebuilt env phs)" by simp
    with m Cons show ?thesis by (simp add: grammar_eq_def same_phrase_def)
  qed
qed

lemma parse_create:
  assumes ne: "p \<noteq> []"
    and acc: "\<forall>ph \<in> set p. 1 \<le> accent ph \<and> accent ph \<le> length (moras ph)"
    and rb: "reads_back env p"
  shows "parse_kana env (create_kana env p) = Inr (rebuilt env p)"
proof -
  from tokenize_tokens[OF tokens_create_kana[OF rb], of 0] obtain us where
    tk: "tokenize env 0 (create_kana env p) = (us, None)" and
    k: "map fst us = phrases_units env p" by blast
  have r: "run env init_state (at0 (phrases_units env p)) None 0 =
             Inr (done_phrases init_state @ rebuilt env p)"
    by (rule run_phrases[OF ne acc rb]) (simp_all add: init_state_def)
  have "same_upto_start init_state init_state" by (simp add: same_upto_start_def)
  from run_same[OF this _ r, of us "length (create_kana env p)"] k
  have "run env init_state us None (length (create_kana env p)) = Inr (rebuilt env p)"
    by (simp add: map_fst_at0 init_state_def)
  with tk show ?thesis by (simp add: parse_kana_def)
qed

subsection \<open>The reverse round trip and its conditions\<close>

text \<open>
  Claim C1 as stated fails: a list whose only phrase has a valid accent and a pause
  mora is written without a trailing delimiter, and parsing the text gives the phrase
  without the pause mora.
\<close>

theorem reverse_round_trip_loses_pause:
  "1 \<le> accent paused_phrase \<and> accent paused_phrase \<le> length (moras paused_phrase) \<and>
   parse_kana sample_env (create_kana sample_env [paused_phrase]) =
     Inr [paused_phrase\<lparr>pause_mora := None\<rparr>] \<and>
   \<not> grammar_eq [paused_phrase] [paused_phrase\<lparr>pause_mora := None\<rparr>]"
  by (simp add: paused_phrase_def sample_env_def phrase_kana_def parse_kana_def classify_def
        step_def close_phrase_def init_state_def base_mora_def grammar_eq_def same_phrase_def)

text \<open>
  Two more lists with valid accents that are not read back. The empty list is written
  as the empty text, which the parser rejects. The phrase of the morae KI and small YA,
  with no pause mora, is written as the text of the token KYA and an apostrophe, which
  the longest match reads as the single mora KYA; that phrase does not read back in the
  sense of \<open>reads_back\<close>.
\<close>

lemma empty_list_not_accepted:
  "parse_kana sample_env (create_kana sample_env []) =
     Inl \<lparr>message = [], error_name = EmptyPhrase, position = 0\<rparr>"
  by (simp add: parse_kana_def close_phrase_def init_state_def kana_error_def sample_env_def)

lemma adjacent_morae_merged:
  "create_kana sample_env [ki_ya_phrase] = [12461, 12515, 39] \<and>
   parse_kana sample_env [12461, 12515, 39] = Inr [kya_phrase] \<and>
   \<not> grammar_eq [ki_ya_phrase] [kya_phrase] \<and>
   \<not> reads_back sample_env [ki_ya_phrase]"
  by (simp add: ki_ya_phrase_def kya_phrase_def sample_env_def phrase_kana_def parse_kana_def
        classify_def step_def close_phrase_def init_state_def base_mora_def grammar_eq_def
        same_phrase_def mora_reads_back_def phrase_tail_def token_start_def)

text \<open>
  Claim C1, as amended. Let \<open>p\<close> be a non-empty list in which every phrase has a valid
  accent, the last phrase has no pause mora, and every mora reads back where the
  serializer writes it: its text starts with a character that is no marker; the longest
  table token at the start of the mora's text and the text written behind it is a
  token \<open>k\<close>; the mora's text is \<open>k\<close> and then only long-vowel marks; and the mora agrees in
  text, consonant and vowel with the mora the builder makes from the table entry of
  \<open>k\<close>, devoiced if the mora's vowel is marked unvoiced and lengthened once for every
  long-vowel mark. Then \<open>parse_kana (create_kana p)\<close> succeeds and agrees with \<open>p\<close> in the
  grammar-relevant fields: the text, consonant and vowel of every mora, the accent, the
  presence of a pause mora and the interrogative flag. Nothing is assumed of the table
  or of the rendering of devoiced and lengthened morae.
\<close>

theorem reverse_round_trip:
  assumes "p \<noteq> []"
    and "\<forall>ph \<in> set p. 1 \<le> accent ph \<and> accent ph \<le> length (moras ph)"
    and "pause_mora (last p) = None"
    and "reads_back env p"
  shows "\<exists>q. parse_kana env (create_kana env p) = Inr q \<and> grammar_eq p q"
proof -
  have "parse_kana env (create_kana env p) = Inr (rebuilt env p)"
    using assms(1,2,4) by (rule parse_create)
  moreover have "grammar_eq p (rebuilt env p)"
    using assms(1,4,3) by (rule rebuilt_same)
  ultimately show ?thesis by blast
qed

theorem reverse_round_trip_witness:
  "reads_back sample_env sample_phrases_timed \<and>
   (\<exists>q. parse_kana sample_env (create_kana sample_env sample_phrases_timed) = Inr q \<and>
        grammar_eq sample_phrases_timed q)"
proof -
  have n: "sample_phrases_timed \<noteq> []"
    by (simp add: sample_phrases_timed_def sample_phrases_def)
  have a: "\<forall>ph \<in> set sample_phrases_timed. 1 \<le> accent ph \<and> accent ph \<le> length (moras ph)"
    by (simp add: sample_phrases_timed_def sample_phrases_def)
  have l: "pause_mora (last sample_phrases_timed) = None"
    by (simp add: sample_phrases_timed_def sample_phrases_def)
  have r: "reads_back sample_env sample_phrases_timed"
    by (simp add: sample_phrases_timed_def sample_phrases_def with_numbers_def sample_env_def
          mora_reads_back_def phrase_tail_def token_start_def classify_def phrase_kana_def
          delimiter_of_def built_mora_def lengthen_def base_mora_def same_mora_def)
  show ?thesis using r reverse_round_trip[OF n a l r] by simp
qed

end
